theory Spec2Isabelle
  imports Main "HOL-Library.Word" "HOL-Library.Char_ord"
begin

text \<open>
  A model of the Go package \<^verbatim>\<open>getopt\<close> (getopt.go): the four option descriptors, the
  registry that the constructors fill, and \<^verbatim>\<open>ParseArgv\<close>, which reads a list of tokens,
  changes the descriptors it finds and collects the other tokens in \<^verbatim>\<open>Rest\<close>. The state
  of the package is passed explicitly; a call returns what it ended with and the state
  it left, also when it ends with an error. The functions of the Go standard library
  that the parser calls are modelled after the library.
\<close>

section \<open>Option descriptors (getopt.go, lines 78-181)\<close>

text \<open>
  The four Go structs \<^verbatim>\<open>Flag\<close>, \<^verbatim>\<open>OptArg\<close>, \<^verbatim>\<open>OptVec\<close> and \<^verbatim>\<open>OptCount\<close> all start
  with the fields \<^verbatim>\<open>Long\<close>, \<^verbatim>\<open>Help\<close>, \<^verbatim>\<open>Short\<close> and add one field of their own. The
  three common fields are a record that each descriptor extends, so that the field names
  of the source are kept. Strings are Go strings: sequences of bytes. \<^verbatim>\<open>Count\<close> is an
  \<^verbatim>\<open>int64\<close>: a 64-bit word, read as two's complement by \<open>sint\<close>; \<^verbatim>\<open>Count++\<close> and
  \<^verbatim>\<open>Count--\<close> wrap as Go's signed arithmetic does.
\<close>

record OptHeader =
  Long :: string
  Help :: string
  Short :: char

record Flag = OptHeader +
  Passed :: bool

record OptArg = OptHeader +
  Opt :: string

record OptVec = OptHeader +
  OptArgs :: "string list"

record OptCount = OptHeader +
  Count :: "64 word"

section \<open>The package state (getopt.go, lines 183-219)\<close>

text \<open>
  A descriptor lives on the heap and is reached through pointers: the pointer a
  constructor returns to its caller and the two pointers it stores in \<^verbatim>\<open>optByShort\<close> and
  \<^verbatim>\<open>optByLong\<close>. A pointer is an address; each descriptor type has a heap of its own, since
  a Go pointer is typed. The values of the two maps have type \<^verbatim>\<open>any\<close>; the package only
  ever stores one of the four pointer types there (the maps are unexported), so the
  \<^verbatim>\<open>default\<close> branch of each type switch (\<^verbatim>\<open>panic("Invalid flag type")\<close>) has no value to
  run on.
\<close>

type_synonym addr = nat

datatype any = PFlag addr | POptArg addr | POptVec addr | POptCount addr

record globals =
  heapFlag :: "addr \<Rightarrow> Flag"
  heapOptArg :: "addr \<Rightarrow> OptArg"
  heapOptVec :: "addr \<Rightarrow> OptVec"
  heapOptCount :: "addr \<Rightarrow> OptCount"
  nextAddr :: addr
  optByShort :: "char \<rightharpoonup> any"
  optByLong :: "string \<rightharpoonup> any"
  flags :: "Flag list"
  optArgs :: "OptArg list"
  optVecs :: "OptVec list"
  optCounts :: "OptCount list"
  Rest :: "string list"

text \<open>
  The errors \<^verbatim>\<open>ParseArgv\<close> returns, one constructor for each message of the source, with
  the values the message is formatted from:
  \<^item> \<open>BooleanParseError\<close>: \<^verbatim>\<open>"Unable to parse boolean string passed as argument"\<close>;
  \<^item> \<open>UnrecognizedLong n\<close>: \<^verbatim>\<open>"Unrecognized long option %s"\<close>;
  \<^item> \<open>UnrecognizedShort c\<close>: \<^verbatim>\<open>"Unrecognized short option:  '%c'"\<close>;
  \<^item> \<open>NumberParseError v n\<close>: \<^verbatim>\<open>"Unable to parse %s as a number, %s"\<close>;
  \<^item> \<open>MissingArgument c n\<close>: \<^verbatim>\<open>"Expecting argument for option:  -%c/--%s"\<close>;
  \<^item> \<open>HandlerError m\<close>: the error \<^verbatim>\<open>StdinHandler\<close> returned, passed on as it is.
\<close>

datatype error =
    BooleanParseError
  | UnrecognizedLong string
  | UnrecognizedShort char
  | NumberParseError string string
  | MissingArgument char string
  | HandlerError string

text \<open>
  What a call of \<^verbatim>\<open>ParseArgv\<close> ends with: \<^verbatim>\<open>return nil\<close>, \<^verbatim>\<open>return err\<close>, or a run-time
  panic on a nil pointer (\<^verbatim>\<open>waiting_opt\<close> and \<^verbatim>\<open>waiting_vec\<close> start as nil).
\<close>

datatype outcome = Returned_nil | Returned_err error | Panic_nil_dereference

text \<open>
  \<^verbatim>\<open>StdinHandler\<close> is a variable holding a function the caller supplies; it may change the
  package state and returns an error or nil.
\<close>

type_synonym handler = "globals \<Rightarrow> error option \<times> globals"

definition default_StdinHandler :: handler where
  "default_StdinHandler g = (None, g)"

definition initial_globals :: globals where
  "initial_globals =
     \<lparr> heapFlag = (\<lambda>_. \<lparr>Long = [], Help = [], Short = CHR 0x00, Passed = False\<rparr>),
       heapOptArg = (\<lambda>_. \<lparr>Long = [], Help = [], Short = CHR 0x00, Opt = []\<rparr>),
       heapOptVec = (\<lambda>_. \<lparr>Long = [], Help = [], Short = CHR 0x00, OptArgs = []\<rparr>),
       heapOptCount = (\<lambda>_. \<lparr>Long = [], Help = [], Short = CHR 0x00, Count = 0\<rparr>),
       nextAddr = 0,
       optByShort = Map.empty, optByLong = Map.empty,
       flags = [], optArgs = [], optVecs = [], optCounts = [], Rest = [] \<rparr>"

subsection \<open>The constructors\<close>

text \<open>
  Each constructor builds the descriptor with its zero-valued own field, appends a copy
  to the list of its kind, stores the address of the new object under both keys
  (replacing what was there) and returns the address.
\<close>

definition NewFlag :: "char \<Rightarrow> string \<Rightarrow> string \<Rightarrow> globals \<Rightarrow> addr \<times> globals" where
  "NewFlag short long hlp g =
     (let f = \<lparr>Long = long, Help = hlp, Short = short, Passed = False\<rparr>;
          p = nextAddr g
      in (p, g\<lparr>heapFlag := (heapFlag g)(p := f), nextAddr := Suc p,
                flags := flags g @ [f],
                optByShort := (optByShort g)(short \<mapsto> PFlag p),
                optByLong := (optByLong g)(long \<mapsto> PFlag p)\<rparr>))"

definition NewOptArg :: "char \<Rightarrow> string \<Rightarrow> string \<Rightarrow> globals \<Rightarrow> addr \<times> globals" where
  "NewOptArg short long hlp g =
     (let oa = \<lparr>Long = long, Help = hlp, Short = short, Opt = []\<rparr>;
          p = nextAddr g
      in (p, g\<lparr>heapOptArg := (heapOptArg g)(p := oa), nextAddr := Suc p,
                optArgs := optArgs g @ [oa],
                optByShort := (optByShort g)(short \<mapsto> POptArg p),
                optByLong := (optByLong g)(long \<mapsto> POptArg p)\<rparr>))"

definition NewOptVec :: "char \<Rightarrow> string \<Rightarrow> string \<Rightarrow> globals \<Rightarrow> addr \<times> globals" where
  "NewOptVec short long hlp g =
     (let v = \<lparr>Long = long, Help = hlp, Short = short, OptArgs = []\<rparr>;
          p = nextAddr g
      in (p, g\<lparr>heapOptVec := (heapOptVec g)(p := v), nextAddr := Suc p,
                optVecs := optVecs g @ [v],
                optByShort := (optByShort g)(short \<mapsto> POptVec p),
                optByLong := (optByLong g)(long \<mapsto> POptVec p)\<rparr>))"

definition NewOptCount :: "char \<Rightarrow> string \<Rightarrow> string \<Rightarrow> globals \<Rightarrow> addr \<times> globals" where
  "NewOptCount short long hlp g =
     (let c = \<lparr>Long = long, Help = hlp, Short = short, Count = 0\<rparr>;
          p = nextAddr g
      in (p, g\<lparr>heapOptCount := (heapOptCount g)(p := c), nextAddr := Suc p,
                optCounts := optCounts g @ [c],
                optByShort := (optByShort g)(short \<mapsto> POptCount p),
                optByLong := (optByLong g)(long \<mapsto> POptCount p)\<rparr>))"

section \<open>Library functions the parser calls\<close>

text \<open>
  \<^verbatim>\<open>strings.IndexByte\<close>: the index of the first occurrence of the byte, \<open>None\<close> for Go's
  \<open>-1\<close>.
\<close>

fun IndexByte :: "string \<Rightarrow> char \<Rightarrow> nat option" where
  "IndexByte [] c = None"
| "IndexByte (x # xs) c = (if x = c then Some 0 else map_option Suc (IndexByte xs c))"

text \<open>
  The byte value of a character, and \<^verbatim>\<open>lower(c) = c | ('x' - 'X')\<close> of strconv: the byte
  with the bit of value 32 set.
\<close>

definition byte :: "char \<Rightarrow> nat" where
  "byte c = of_char c"

definition lower :: "char \<Rightarrow> char" where
  "lower c = (if (byte c div 32) mod 2 = 0 then char_of (byte c + 32) else c)"

subsection \<open>strings.EqualFold\<close>

text \<open>
  \<^verbatim>\<open>strings.EqualFold(s, t)\<close> compares the two strings rune by rune under Unicode simple
  case folding. \<^verbatim>\<open>optargToBool\<close> calls it with a second argument made of ASCII letters
  only, and this is the function modelled here: \<open>t\<close> is ASCII. An ASCII byte of \<open>s\<close>
  matches the same byte or the other case of the same letter. Of the runes beyond
  ASCII, only two fold to an ASCII letter: U+017F (long s, the bytes C5 BF) folds to
  \<open>s\<close> and U+212A (the Kelvin sign, the bytes E2 84 AA) folds to \<open>k\<close>; every other
  rune, and every byte that is not valid UTF-8, matches no ASCII letter.
\<close>

definition ascii_fold_eq :: "char \<Rightarrow> char \<Rightarrow> bool" where
  "ascii_fold_eq sr tr =
     (tr = sr \<or>
      (let lo = min sr tr; hi = max sr tr
       in CHR ''A'' \<le> lo \<and> lo \<le> CHR ''Z'' \<and> byte hi = byte lo + 32))"

fun EqualFold :: "string \<Rightarrow> string \<Rightarrow> bool" where
  "EqualFold [] [] = True"
| "EqualFold [] (tr # t) = False"
| "EqualFold (sr # s) [] = False"
| "EqualFold (sr # s) (tr # t) =
     (if byte sr < 128 then ascii_fold_eq sr tr \<and> EqualFold s t
      else if sr = CHR 0xC5 \<and> take 1 s = [CHR 0xBF] then
        (tr = CHR ''s'' \<or> tr = CHR ''S'') \<and> EqualFold (drop 1 s) t
      else if sr = CHR 0xE2 \<and> take 2 s = [CHR 0x84, CHR 0xAA] then
        (tr = CHR ''k'' \<or> tr = CHR ''K'') \<and> EqualFold (drop 2 s) t
      else False)"

subsection \<open>optargToBool (getopt.go, lines 224-230)\<close>

definition optargToBool :: "string \<Rightarrow> error + bool" where
  "optargToBool s =
     (if EqualFold s ''t'' then Inr True
      else if EqualFold s ''f'' then Inr False
      else if EqualFold s ''true'' then Inr True
      else if EqualFold s ''false'' then Inr False
      else Inl BooleanParseError)"

subsection \<open>strconv.ParseInt\<close>

text \<open>
  \<^verbatim>\<open>strconv.ParseUint\<close> and \<^verbatim>\<open>strconv.ParseInt\<close> of the Go standard library, which the
  assignment to a counter calls with base 0 and bit size 32. A \<^verbatim>\<open>uint64\<close> is a natural
  number below \<open>2 ^ 64\<close> with the wrap-around of each operation written out. Both
  functions return a value together with an error or nil, as in Go.
\<close>

datatype NumError = ErrSyntax | ErrRange | ErrBase | ErrBitSize

text \<open>\<^verbatim>\<open>IntSize\<close> is the size of an \<^verbatim>\<open>int\<close>, used for the bit size 0 only: 64 here.\<close>

definition IntSize :: nat where
  "IntSize = 64"

text \<open>
  \<^verbatim>\<open>underscoreOK\<close>: underscores must separate digits, or a base prefix and a digit. The
  second argument of the loop is its variable \<^verbatim>\<open>i\<close>: \<open>0\<close> after a digit or base prefix,
  \<open>_\<close> after an underscore, another character otherwise.
\<close>

fun underscoreOK_loop :: "bool \<Rightarrow> char \<Rightarrow> string \<Rightarrow> bool" where
  "underscoreOK_loop hex i [] = (i \<noteq> CHR ''_'')"
| "underscoreOK_loop hex i (c # s) =
     (if (CHR ''0'' \<le> c \<and> c \<le> CHR ''9'') \<or>
         (hex \<and> CHR ''a'' \<le> lower c \<and> lower c \<le> CHR ''f'')
      then underscoreOK_loop hex (CHR ''0'') s
      else if c = CHR ''_'' then
        (if i \<noteq> CHR ''0'' then False else underscoreOK_loop hex (CHR ''_'') s)
      else if i = CHR ''_'' then False
      else underscoreOK_loop hex (CHR ''!'') s)"

definition underscoreOK :: "string \<Rightarrow> bool" where
  "underscoreOK s0 =
     (let s1 = (if 1 \<le> length s0 \<and> (s0 ! 0 = CHR ''-'' \<or> s0 ! 0 = CHR ''+'')
                then drop 1 s0 else s0);
          pre = (2 \<le> length s1 \<and> s1 ! 0 = CHR ''0'' \<and>
                 (lower (s1 ! 1) = CHR ''b'' \<or> lower (s1 ! 1) = CHR ''o'' \<or>
                  lower (s1 ! 1) = CHR ''x''));
          i = (if pre then CHR ''0'' else CHR ''^'');
          hex = (pre \<and> lower (s1 ! 1) = CHR ''x'');
          s2 = (if pre then drop 2 s1 else s1)
      in underscoreOK_loop hex i s2)"

text \<open>
  The digit loop of \<^verbatim>\<open>ParseUint\<close>. \<open>digit\<close> is the part of its \<^verbatim>\<open>switch\<close> that gives a
  byte its value \<^verbatim>\<open>d\<close>, \<open>None\<close> in the \<^verbatim>\<open>default\<close> case. In the loop, \<open>Inl\<close> is an early
  \<^verbatim>\<open>return\<close> (value and error); \<open>Inr\<close> is the end of the loop with the variables \<^verbatim>\<open>n\<close>
  and \<^verbatim>\<open>underscores\<close>.
\<close>

definition digit :: "char \<Rightarrow> nat option" where
  "digit c =
     (if CHR ''0'' \<le> c \<and> c \<le> CHR ''9'' then Some (byte c - byte (CHR ''0''))
      else if CHR ''a'' \<le> lower c \<and> lower c \<le> CHR ''z''
        then Some (byte (lower c) - byte (CHR ''a'') + 10)
      else None)"

fun ParseUint_loop ::
  "nat \<Rightarrow> bool \<Rightarrow> nat \<Rightarrow> nat \<Rightarrow> string \<Rightarrow> nat \<Rightarrow> bool \<Rightarrow> (nat \<times> NumError) + (nat \<times> bool)" where
  "ParseUint_loop base base0 cutoff maxVal [] n underscores = Inr (n, underscores)"
| "ParseUint_loop base base0 cutoff maxVal (c # s) n underscores =
     (if c = CHR ''_'' \<and> base0 then ParseUint_loop base base0 cutoff maxVal s n True
      else
        (case digit c of
           None \<Rightarrow> Inl (0, ErrSyntax)
         | Some d \<Rightarrow>
             if d \<ge> base mod 256 then Inl (0, ErrSyntax)
             else if n \<ge> cutoff then Inl (maxVal, ErrRange)
             else
               (let n' = (n * base) mod 2 ^ 64;
                    n1 = (n' + d) mod 2 ^ 64
                in if n1 < n' \<or> n1 > maxVal then Inl (maxVal, ErrRange)
                   else ParseUint_loop base base0 cutoff maxVal s n1 underscores)))"

definition ParseUint :: "string \<Rightarrow> nat \<Rightarrow> nat \<Rightarrow> nat \<times> NumError option" where
  "ParseUint s0 base bitSize =
     (if s0 = [] then (0, Some ErrSyntax)
      else if \<not> (base = 0 \<or> (2 \<le> base \<and> base \<le> 36)) then (0, Some ErrBase)
      else
        (let base0 = (base = 0);
             (base', s) =
               (if base0 then
                  (if s0 ! 0 = CHR ''0'' then
                     (if 3 \<le> length s0 \<and> lower (s0 ! 1) = CHR ''b'' then (2, drop 2 s0)
                      else if 3 \<le> length s0 \<and> lower (s0 ! 1) = CHR ''o'' then (8, drop 2 s0)
                      else if 3 \<le> length s0 \<and> lower (s0 ! 1) = CHR ''x'' then (16, drop 2 s0)
                      else (8, drop 1 s0))
                   else (10, s0))
                else (base, s0));
             bitSize' = (if bitSize = 0 then IntSize else bitSize)
         in if bitSize' > 64 then (0, Some ErrBitSize)
            else
              (let cutoff = (2 ^ 64 - 1) div base' + 1;
                   maxVal = ((2 ^ bitSize') mod 2 ^ 64 + (2 ^ 64 - 1)) mod 2 ^ 64
               in case ParseUint_loop base' base0 cutoff maxVal s 0 False of
                    Inl (v, e) \<Rightarrow> (v, Some e)
                  | Inr (n, underscores) \<Rightarrow>
                      if underscores \<and> \<not> underscoreOK s0 then (0, Some ErrSyntax)
                      else (n, None))))"

text \<open>
  \<^verbatim>\<open>ParseInt\<close> returns an \<^verbatim>\<open>int64\<close>: a 64-bit word. \<^verbatim>\<open>int64(un)\<close> is \<open>of_nat un\<close> and the
  negation is the word's.
\<close>

definition ParseInt :: "string \<Rightarrow> nat \<Rightarrow> nat \<Rightarrow> 64 word \<times> NumError option" where
  "ParseInt s0 base bitSize =
     (if s0 = [] then (0, Some ErrSyntax)
      else
        (let neg = (s0 ! 0 = CHR ''-'');
             s = (if s0 ! 0 = CHR ''+'' \<or> s0 ! 0 = CHR ''-'' then drop 1 s0 else s0);
             (un, err) = ParseUint s base bitSize
         in if err \<noteq> None \<and> err \<noteq> Some ErrRange then (0, err)
            else
              (let bitSize' = (if bitSize = 0 then IntSize else bitSize);
                   cutoff = (2 ^ (bitSize' - 1)) mod 2 ^ 64
               in if \<not> neg \<and> un \<ge> cutoff then (of_nat (cutoff - 1), Some ErrRange)
                  else if neg \<and> un > cutoff then (- of_nat cutoff, Some ErrRange)
                  else (if neg then - of_nat un else of_nat un, None))))"

section \<open>ParseArgv (getopt.go, lines 233-443)\<close>

text \<open>The local variables of \<^verbatim>\<open>ParseArgv\<close>; a nil pointer is \<open>None\<close>.\<close>

record locals =
  expecting_optarg :: bool
  waiting_opt :: "addr option"
  waiting_vec :: "addr option"
  expecting_opt :: bool

definition initial_locals :: locals where
  "initial_locals =
     \<lparr> expecting_optarg = False, waiting_opt = None, waiting_vec = None,
       expecting_opt = False \<rparr>"

text \<open>Assignments through a pointer.\<close>

definition set_Passed :: "addr \<Rightarrow> bool \<Rightarrow> globals \<Rightarrow> globals" where
  "set_Passed p b g = g\<lparr>heapFlag := (heapFlag g)(p := (heapFlag g p)\<lparr>Passed := b\<rparr>)\<rparr>"

definition set_Opt :: "addr \<Rightarrow> string \<Rightarrow> globals \<Rightarrow> globals" where
  "set_Opt p v g = g\<lparr>heapOptArg := (heapOptArg g)(p := (heapOptArg g p)\<lparr>Opt := v\<rparr>)\<rparr>"

definition set_OptArgs :: "addr \<Rightarrow> string list \<Rightarrow> globals \<Rightarrow> globals" where
  "set_OptArgs p vs g = g\<lparr>heapOptVec := (heapOptVec g)(p := (heapOptVec g p)\<lparr>OptArgs := vs\<rparr>)\<rparr>"

definition set_Count :: "addr \<Rightarrow> 64 word \<Rightarrow> globals \<Rightarrow> globals" where
  "set_Count p n g = g\<lparr>heapOptCount := (heapOptCount g)(p := (heapOptCount g p)\<lparr>Count := n\<rparr>)\<rparr>"

text \<open>
  The type switch of a token \<^verbatim>\<open>-c\<close> (lines 271-288); the switch of a long option
  without \<^verbatim>\<open>=\<close> (lines 316-333) is the same text.
\<close>

fun apply_positive :: "any \<Rightarrow> globals \<Rightarrow> locals \<Rightarrow> globals \<times> locals" where
  "apply_positive (PFlag p) g l = (set_Passed p True g, l)"
| "apply_positive (POptArg p) g l =
     (g, l\<lparr>waiting_opt := Some p, expecting_opt := True, expecting_optarg := True\<rparr>)"
| "apply_positive (POptVec p) g l =
     (g, l\<lparr>waiting_vec := Some p, expecting_opt := True, expecting_optarg := False\<rparr>)"
| "apply_positive (POptCount p) g l = (set_Count p (Count (heapOptCount g p) + 1) g, l)"

text \<open>
  The type switch of a token \<^verbatim>\<open>+c\<close> (lines 293-305) and of each character of a
  \<^verbatim>\<open>+\<close> group (lines 408-423). \<^verbatim>\<open>make([]string, initialCapacity)\<close> is a slice of length
  0.
\<close>

fun apply_negate :: "any \<Rightarrow> globals \<Rightarrow> globals" where
  "apply_negate (PFlag p) g = set_Passed p False g"
| "apply_negate (POptArg p) g = set_Opt p [] g"
| "apply_negate (POptVec p) g = set_OptArgs p [] g"
| "apply_negate (POptCount p) g = set_Count p (Count (heapOptCount g p) - 1) g"

text \<open>
  The type switch of a long option with \<^verbatim>\<open>=\<close> (lines 339-365): \<open>opt\<close> is the text after
  the first \<^verbatim>\<open>=\<close>, \<open>name\<close> the text between \<^verbatim>\<open>--\<close> and it.
\<close>

fun apply_assign :: "any \<Rightarrow> string \<Rightarrow> string \<Rightarrow> globals \<Rightarrow> error option \<times> globals" where
  "apply_assign (PFlag p) name opt g =
     (case optargToBool opt of
        Inl err \<Rightarrow> (Some err, g)
      | Inr val \<Rightarrow> (None, set_Passed p val g))"
| "apply_assign (POptArg p) name opt g = (None, set_Opt p opt g)"
| "apply_assign (POptVec p) name opt g =
     (None, set_OptArgs p (OptArgs (heapOptVec g p) @ [opt]) g)"
| "apply_assign (POptCount p) name opt g =
     (case ParseInt opt 0 32 of
        (v, Some err) \<Rightarrow> (Some (NumberParseError opt name), g)
      | (v, None) \<Rightarrow> (None, set_Count p v g))"

text \<open>
  The loop over the characters of a group of shorts (lines 369-403), from index
  \<open>i\<close> on: the argument is \<^verbatim>\<open>arg[i:]\<close>, so \<^verbatim>\<open>i < len(arg) - 1\<close> says that its tail is not
  empty, and \<^verbatim>\<open>goto arg_loop_end\<close> leaves the loop. The last character of a group, when it
  names an \<^verbatim>\<open>OptArg\<close> or \<^verbatim>\<open>OptVec\<close>, sets the two flags and leaves \<^verbatim>\<open>waiting_opt\<close> and
  \<^verbatim>\<open>waiting_vec\<close> as they are.
\<close>

fun short_group :: "string \<Rightarrow> globals \<Rightarrow> locals \<Rightarrow> error option \<times> globals \<times> locals" where
  "short_group [] g l = (None, g, l)"
| "short_group (c # cs) g l =
     (case optByShort g c of
        Some (PFlag p) \<Rightarrow> short_group cs (set_Passed p True g) l
      | Some (POptArg p) \<Rightarrow>
          if cs \<noteq> [] then (None, set_Opt p cs g, l)
          else short_group cs g (l\<lparr>expecting_opt := True, expecting_optarg := True\<rparr>)
      | Some (POptVec p) \<Rightarrow>
          if cs \<noteq> [] then (None, set_OptArgs p (OptArgs (heapOptVec g p) @ [cs]) g, l)
          else short_group cs g (l\<lparr>expecting_opt := True, expecting_optarg := False\<rparr>)
      | Some (POptCount p) \<Rightarrow>
          short_group cs (set_Count p (Count (heapOptCount g p) + 1) g) l
      | None \<Rightarrow> (Some (UnrecognizedShort c), g, l))"

text \<open>The loop over the characters of a \<^verbatim>\<open>+\<close> group (lines 406-427).\<close>

fun negate_group :: "string \<Rightarrow> globals \<Rightarrow> error option \<times> globals" where
  "negate_group [] g = (None, g)"
| "negate_group (c # cs) g =
     (case optByShort g c of
        Some v \<Rightarrow> negate_group cs (apply_negate v g)
      | None \<Rightarrow> (Some (UnrecognizedShort c), g))"

text \<open>
  One turn of the loop over \<^verbatim>\<open>argv\<close> (lines 241-431), on the token \<open>arg\<close> with the
  tokens \<open>rest\<close> after it: \<open>Continue\<close> goes on with the next token (the end of the body or
  a \<^verbatim>\<open>continue\<close>), \<open>Stop\<close> is a \<^verbatim>\<open>return\<close> or a panic.
\<close>

datatype turn = Continue globals locals | Stop outcome globals

definition step :: "handler \<Rightarrow> string \<Rightarrow> string list \<Rightarrow> globals \<Rightarrow> locals \<Rightarrow> turn" where
  "step StdinHandler arg rest g l =
     (if length arg = 0 then Continue g l
      else if expecting_opt l then
        (if expecting_optarg l then
           (case waiting_opt l of
              None \<Rightarrow> Stop Panic_nil_dereference g
            | Some p \<Rightarrow> Continue (set_Opt p arg g) (l\<lparr>expecting_opt := False\<rparr>))
         else
           (case waiting_vec l of
              None \<Rightarrow> Stop Panic_nil_dereference g
            | Some p \<Rightarrow>
                Continue (set_OptArgs p (OptArgs (heapOptVec g p) @ [arg]) g)
                  (l\<lparr>expecting_opt := False\<rparr>)))
      else if length arg = 1 then
        (if arg ! 0 = CHR ''-'' then
           (case StdinHandler g of
              (Some e, g') \<Rightarrow> Stop (Returned_err e) g'
            | (None, g') \<Rightarrow> Continue g' l)
         else Continue (g\<lparr>Rest := Rest g @ [arg]\<rparr>) l)
      else if length arg = 2 then
        (if arg ! 0 = CHR ''-'' then
           (if arg ! 1 = CHR ''-'' then Stop Returned_nil (g\<lparr>Rest := Rest g @ rest\<rparr>)
            else
              (case optByShort g (arg ! 1) of
                 Some v \<Rightarrow> (case apply_positive v g l of (g', l') \<Rightarrow> Continue g' l')
               | None \<Rightarrow> Continue g l))
         else if arg ! 0 = CHR ''+'' then
           (case optByShort g (arg ! 1) of
              Some v \<Rightarrow> Continue (apply_negate v g) l
            | None \<Rightarrow> Continue g l)
         else Continue (g\<lparr>Rest := Rest g @ [arg]\<rparr>) l)
      else
        (if arg ! 0 = CHR ''-'' then
           (if arg ! 1 = CHR ''-'' then
              (case IndexByte arg (CHR ''='') of
                 None \<Rightarrow>
                   (case optByLong g (drop 2 arg) of
                      Some v \<Rightarrow> (case apply_positive v g l of (g', l') \<Rightarrow> Continue g' l')
                    | None \<Rightarrow> Stop (Returned_err (UnrecognizedLong (drop 2 arg))) g)
               | Some equals \<Rightarrow>
                   (case optByLong g (take (equals - 2) (drop 2 arg)) of
                      Some v \<Rightarrow>
                        (case apply_assign v (take (equals - 2) (drop 2 arg))
                                (drop (equals + 1) arg) g of
                           (Some err, g') \<Rightarrow> Stop (Returned_err err) g'
                         | (None, g') \<Rightarrow> Continue g' l)
                    | None \<Rightarrow> Continue g l))
            else
              (case short_group (drop 1 arg) g l of
                 (Some err, g', l') \<Rightarrow> Stop (Returned_err err) g'
               | (None, g', l') \<Rightarrow> Continue g' l'))
         else if arg ! 0 = CHR ''+'' then
           (case negate_group (drop 1 arg) g of
              (Some err, g') \<Rightarrow> Stop (Returned_err err) g'
            | (None, g') \<Rightarrow> Continue g' l)
         else Continue (g\<lparr>Rest := Rest g @ [arg]\<rparr>) l))"

text \<open>The code after the loop (lines 433-442).\<close>

definition finish :: "globals \<Rightarrow> locals \<Rightarrow> outcome" where
  "finish g l =
     (if expecting_opt l then
        (if expecting_optarg l then
           (case waiting_opt l of
              None \<Rightarrow> Panic_nil_dereference
            | Some p \<Rightarrow>
                Returned_err (MissingArgument (Short (heapOptArg g p)) (Long (heapOptArg g p))))
         else
           (case waiting_vec l of
              None \<Rightarrow> Panic_nil_dereference
            | Some p \<Rightarrow>
                Returned_err (MissingArgument (Short (heapOptVec g p)) (Long (heapOptVec g p)))))
      else Returned_nil)"

text \<open>The loop, on the tokens from the current one on, and the function.\<close>

fun parse_loop :: "handler \<Rightarrow> string list \<Rightarrow> globals \<Rightarrow> locals \<Rightarrow> outcome \<times> globals" where
  "parse_loop StdinHandler [] g l = (finish g l, g)"
| "parse_loop StdinHandler (arg # rest) g l =
     (case step StdinHandler arg rest g l of
        Continue g' l' \<Rightarrow> parse_loop StdinHandler rest g' l'
      | Stop r g' \<Rightarrow> (r, g'))"

definition ParseArgv :: "handler \<Rightarrow> string list \<Rightarrow> globals \<Rightarrow> outcome \<times> globals" where
  "ParseArgv StdinHandler argv g = parse_loop StdinHandler argv g initial_locals"

section \<open>Registries of the package's tests\<close>

text \<open>
  The registrations the tests of the package start from, on the empty registry:
  \<^verbatim>\<open>NewOptArg('f', "file", "file to read")\<close> (TestLongSepOptArg),
  \<^verbatim>\<open>NewOptCount('v', "verbose", "Verbosity of the program")\<close> (TestOptCountShort),
  \<^verbatim>\<open>NewFlag('f', "force", "force")\<close> (TestLongFlagBoolError), a flag
  \<^verbatim>\<open>NewFlag('a', "about", "topic")\<close> followed by the \<^verbatim>\<open>OptArg\<close> of the first, and these
  two followed by a second \<^verbatim>\<open>OptArg\<close>, \<^verbatim>\<open>NewOptArg('o', "output", "file to write")\<close>.
\<close>

definition registry_file :: globals where
  "registry_file = snd (NewOptArg (CHR ''f'') ''file'' ''file to read'' initial_globals)"

definition registry_verbose :: globals where
  "registry_verbose =
     snd (NewOptCount (CHR ''v'') ''verbose'' ''Verbosity of the program'' initial_globals)"

definition registry_force :: globals where
  "registry_force = snd (NewFlag (CHR ''f'') ''force'' ''force'' initial_globals)"

definition registry_about_file :: globals where
  "registry_about_file =
     snd (NewOptArg (CHR ''f'') ''file'' ''file to read''
            (snd (NewFlag (CHR ''a'') ''about'' ''topic'' initial_globals)))"

definition registry_about_file_output :: globals where
  "registry_about_file_output =
     snd (NewOptArg (CHR ''o'') ''output'' ''file to write'' registry_about_file)"

section \<open>The forms of an occurrence of an option with a value\<close>

text \<open>
  The three ways of the documentation to give the value \<open>V\<close> to the option with the short
  character \<open>x\<close> and the long name \<open>long\<close>: \<^verbatim>\<open>--long=V\<close>, the two tokens \<^verbatim>\<open>--long\<close> and
  \<^verbatim>\<open>V\<close>, and \<^verbatim>\<open>-xV\<close>.
\<close>

datatype occurrence_form = Long_equals | Long_separate | Short_attached

fun occurrence :: "occurrence_form \<Rightarrow> char \<Rightarrow> string \<Rightarrow> string \<Rightarrow> string list" where
  "occurrence Long_equals x long V = [''--'' @ long @ ''='' @ V]"
| "occurrence Long_separate x long V = [''--'' @ long, V]"
| "occurrence Short_attached x long V = [CHR ''-'' # x # V]"

section \<open>Boolean literals, case-insensitively\<close>

text \<open>
  The documentation of \<^verbatim>\<open>optargToBool\<close> in its own words: the strings \<^verbatim>\<open>true\<close>, \<^verbatim>\<open>false\<close>,
  \<^verbatim>\<open>t\<close> and \<^verbatim>\<open>f\<close>, whatever the case of each letter. \<open>ascii_lower\<close> maps an upper-case
  ASCII letter to its lower case and leaves every other byte.
\<close>

definition ascii_lower :: "char \<Rightarrow> char" where
  "ascii_lower c = (if CHR ''A'' \<le> c \<and> c \<le> CHR ''Z'' then char_of (byte c + 32) else c)"

definition bool_literal :: "string \<Rightarrow> bool option" where
  "bool_literal V =
     (let w = map ascii_lower V
      in if w = ''t'' \<or> w = ''true'' then Some True
         else if w = ''f'' \<or> w = ''false'' then Some False
         else None)"

text \<open>
  Case-insensitive matching as Unicode simple case folding counts it. \<open>fold_string\<close>
  maps an upper-case ASCII letter to its lower case, the rune U+017F (long s, the bytes
  C5 BF) to \<open>s\<close> and the rune U+212A (Kelvin sign, the bytes E2 84 AA) to \<open>k\<close>, and leaves
  every other byte; \<open>folded_bool_literal\<close> reads the four literals in the folded string.
\<close>

fun fold_string :: "string \<Rightarrow> string" where
  "fold_string [] = []"
| "fold_string (c # s) =
     (if byte c < 128 then ascii_lower c # fold_string s
      else if c = CHR 0xC5 \<and> take 1 s = [CHR 0xBF] then CHR ''s'' # fold_string (drop 1 s)
      else if c = CHR 0xE2 \<and> take 2 s = [CHR 0x84, CHR 0xAA] then
        CHR ''k'' # fold_string (drop 2 s)
      else c # fold_string s)"

definition folded_bool_literal :: "string \<Rightarrow> bool option" where
  "folded_bool_literal V =
     (let w = fold_string V
      in if w = ''t'' \<or> w = ''true'' then Some True
         else if w = ''f'' \<or> w = ''false'' then Some False
         else None)"

section \<open>Integer literals\<close>






section \<open>Positional tokens\<close>

text \<open>
  The tokens that are not options, by their shape: a single character other than \<^verbatim>\<open>-\<close>,
  or two or more characters that start with neither \<^verbatim>\<open>-\<close> nor \<^verbatim>\<open>+\<close>.
\<close>

definition positional :: "string \<Rightarrow> bool" where
  "positional tok \<longleftrightarrow>
     (length tok = 1 \<and> tok \<noteq> ''-'') \<or>
     (2 \<le> length tok \<and> hd tok \<noteq> CHR ''-'' \<and> hd tok \<noteq> CHR ''+'')"

section \<open>Basic facts about the model\<close>

subsection \<open>Assignments through a pointer\<close>

lemma set_Passed_reads [simp]:
  "Passed (heapFlag (set_Passed p b g) p) = b"
  "optByShort (set_Passed p b g) = optByShort g"
  "optByLong (set_Passed p b g) = optByLong g"
  "Rest (set_Passed p b g) = Rest g"
  "heapOptArg (set_Passed p b g) = heapOptArg g"
  "heapOptVec (set_Passed p b g) = heapOptVec g"
  "heapOptCount (set_Passed p b g) = heapOptCount g"
  by (simp_all add: set_Passed_def)

lemma set_Opt_reads [simp]:
  "Opt (heapOptArg (set_Opt p v g) p) = v"
  "Short (heapOptArg (set_Opt p v g) q) = Short (heapOptArg g q)"
  "Long (heapOptArg (set_Opt p v g) q) = Long (heapOptArg g q)"
  "optByShort (set_Opt p v g) = optByShort g"
  "optByLong (set_Opt p v g) = optByLong g"
  "Rest (set_Opt p v g) = Rest g"
  "heapFlag (set_Opt p v g) = heapFlag g"
  "heapOptVec (set_Opt p v g) = heapOptVec g"
  "heapOptCount (set_Opt p v g) = heapOptCount g"
  by (simp_all add: set_Opt_def)

lemma set_OptArgs_reads [simp]:
  "OptArgs (heapOptVec (set_OptArgs p vs g) p) = vs"
  "Short (heapOptVec (set_OptArgs p vs g) q) = Short (heapOptVec g q)"
  "Long (heapOptVec (set_OptArgs p vs g) q) = Long (heapOptVec g q)"
  "optByShort (set_OptArgs p vs g) = optByShort g"
  "optByLong (set_OptArgs p vs g) = optByLong g"
  "Rest (set_OptArgs p vs g) = Rest g"
  "heapFlag (set_OptArgs p vs g) = heapFlag g"
  "heapOptArg (set_OptArgs p vs g) = heapOptArg g"
  "heapOptCount (set_OptArgs p vs g) = heapOptCount g"
  by (simp_all add: set_OptArgs_def)

lemma set_Count_reads [simp]:
  "Count (heapOptCount (set_Count p n g) p) = n"
  "optByShort (set_Count p n g) = optByShort g"
  "optByLong (set_Count p n g) = optByLong g"
  "Rest (set_Count p n g) = Rest g"
  "heapFlag (set_Count p n g) = heapFlag g"
  "heapOptArg (set_Count p n g) = heapOptArg g"
  "heapOptVec (set_Count p n g) = heapOptVec g"
  by (simp_all add: set_Count_def)

lemma set_twice [simp]:
  "set_Passed p b (set_Passed p b' g) = set_Passed p b g"
  "set_Opt p v (set_Opt p v' g) = set_Opt p v g"
  "set_OptArgs p vs (set_OptArgs p vs' g) = set_OptArgs p vs g"
  "set_Count p n (set_Count p n' g) = set_Count p n g"
  by (simp_all add: set_Passed_def set_Opt_def set_OptArgs_def set_Count_def)

subsection \<open>The registries of the tests\<close>

lemma registry_file_facts:
  "optByShort registry_file = [CHR ''f'' \<mapsto> POptArg 0]"
  "optByLong registry_file = [''file'' \<mapsto> POptArg 0]"
  "Short (heapOptArg registry_file 0) = CHR ''f''"
  "Long (heapOptArg registry_file 0) = ''file''"
  "Opt (heapOptArg registry_file 0) = []"
  "Rest registry_file = []"
  by (simp_all add: registry_file_def NewOptArg_def initial_globals_def Let_def)

lemma registry_verbose_facts:
  "optByShort registry_verbose = [CHR ''v'' \<mapsto> POptCount 0]"
  "optByLong registry_verbose = [''verbose'' \<mapsto> POptCount 0]"
  "Count (heapOptCount registry_verbose 0) = 0"
  "Rest registry_verbose = []"
  by (simp_all add: registry_verbose_def NewOptCount_def initial_globals_def Let_def)

lemma registry_force_facts:
  "optByShort registry_force = [CHR ''f'' \<mapsto> PFlag 0]"
  "optByLong registry_force = [''force'' \<mapsto> PFlag 0]"
  "Passed (heapFlag registry_force 0) = False"
  "Rest registry_force = []"
  by (simp_all add: registry_force_def NewFlag_def initial_globals_def Let_def)

lemma registry_about_file_facts:
  "optByShort registry_about_file = [CHR ''a'' \<mapsto> PFlag 0, CHR ''f'' \<mapsto> POptArg 1]"
  "optByLong registry_about_file = [''about'' \<mapsto> PFlag 0, ''file'' \<mapsto> POptArg 1]"
  "Passed (heapFlag registry_about_file 0) = False"
  "Short (heapOptArg registry_about_file (Suc 0)) = CHR ''f''"
  "Long (heapOptArg registry_about_file (Suc 0)) = ''file''"
  "Opt (heapOptArg registry_about_file (Suc 0)) = []"
  "Rest registry_about_file = []"
  by (simp_all add: registry_about_file_def NewFlag_def NewOptArg_def initial_globals_def Let_def)

lemma registry_about_file_output_facts:
  "optByShort registry_about_file_output =
     [CHR ''a'' \<mapsto> PFlag 0, CHR ''f'' \<mapsto> POptArg (Suc 0),
      CHR ''o'' \<mapsto> POptArg (Suc (Suc 0))]"
  "Passed (heapFlag registry_about_file_output 0) = False"
  "Short (heapOptArg registry_about_file_output (Suc 0)) = CHR ''f''"
  "Long (heapOptArg registry_about_file_output (Suc 0)) = ''file''"
  "Short (heapOptArg registry_about_file_output (Suc (Suc 0))) = CHR ''o''"
  "Long (heapOptArg registry_about_file_output (Suc (Suc 0))) = ''output''"
  "Rest registry_about_file_output = []"
  by (simp_all add: registry_about_file_output_def registry_about_file_def NewFlag_def
        NewOptArg_def initial_globals_def Let_def)

subsection \<open>The first \<^verbatim>\<open>=\<close> of a token\<close>

lemma IndexByte_None: "c \<notin> set s \<Longrightarrow> IndexByte s c = None"
  by (induction s) auto

lemma IndexByte_append: "c \<notin> set s \<Longrightarrow> IndexByte (s @ c # t) c = Some (length s)"
  by (induction s) auto

subsection \<open>One turn of the loop, by the shape of the token\<close>

lemma step_empty: "step h [] rest g l = Continue g l"
  by (simp add: step_def)

lemma step_awaiting_opt:
  "expecting_opt l \<Longrightarrow> arg \<noteq> [] \<Longrightarrow> expecting_optarg l \<Longrightarrow> waiting_opt l = Some p \<Longrightarrow>
   step h arg rest g l = Continue (set_Opt p arg g) (l\<lparr>expecting_opt := False\<rparr>)"
  by (simp add: step_def)

lemma step_awaiting_vec:
  "expecting_opt l \<Longrightarrow> arg \<noteq> [] \<Longrightarrow> \<not> expecting_optarg l \<Longrightarrow> waiting_vec l = Some p \<Longrightarrow>
   step h arg rest g l =
     Continue (set_OptArgs p (OptArgs (heapOptVec g p) @ [arg]) g) (l\<lparr>expecting_opt := False\<rparr>)"
  by (simp add: step_def)

lemma step_terminator:
  "\<not> expecting_opt l \<Longrightarrow>
   step h ''--'' rest g l = Stop Returned_nil (g\<lparr>Rest := Rest g @ rest\<rparr>)"
  by (simp add: step_def)

lemma step_short:
  "\<not> expecting_opt l \<Longrightarrow> c \<noteq> CHR ''-'' \<Longrightarrow>
   step h [CHR ''-'', c] rest g l =
     (case optByShort g c of
        Some v \<Rightarrow> (case apply_positive v g l of (g', l') \<Rightarrow> Continue g' l')
      | None \<Rightarrow> Continue g l)"
  by (simp add: step_def)

lemma step_plus:
  "\<not> expecting_opt l \<Longrightarrow>
   step h [CHR ''+'', c] rest g l =
     (case optByShort g c of Some v \<Rightarrow> Continue (apply_negate v g) l | None \<Rightarrow> Continue g l)"
  by (simp add: step_def)

lemma step_long_bare:
  "\<not> expecting_opt l \<Longrightarrow> name \<noteq> [] \<Longrightarrow> CHR ''='' \<notin> set name \<Longrightarrow>
   step h (''--'' @ name) rest g l =
     (case optByLong g name of
        Some v \<Rightarrow> (case apply_positive v g l of (g', l') \<Rightarrow> Continue g' l')
      | None \<Rightarrow> Stop (Returned_err (UnrecognizedLong name)) g)"
  by (cases name) (auto simp add: step_def IndexByte_None split: option.splits)

lemma step_long_assign:
  "\<not> expecting_opt l \<Longrightarrow> CHR ''='' \<notin> set name \<Longrightarrow>
   step h (''--'' @ name @ ''='' @ V) rest g l =
     (case optByLong g name of
        Some v \<Rightarrow>
          (case apply_assign v name V g of
             (Some err, g') \<Rightarrow> Stop (Returned_err err) g'
           | (None, g') \<Rightarrow> Continue g' l)
      | None \<Rightarrow> Continue g l)"
  by (auto simp add: step_def IndexByte_append split: option.splits prod.splits)

lemma step_short_group:
  "\<not> expecting_opt l \<Longrightarrow> c \<noteq> CHR ''-'' \<Longrightarrow> cs \<noteq> [] \<Longrightarrow>
   step h (CHR ''-'' # c # cs) rest g l =
     (case short_group (c # cs) g l of
        (Some err, g', l') \<Rightarrow> Stop (Returned_err err) g'
      | (None, g', l') \<Rightarrow> Continue g' l')"
  by (cases cs) (simp_all add: step_def del: short_group.simps)

lemma step_negate_group:
  "\<not> expecting_opt l \<Longrightarrow> 2 \<le> length cs \<Longrightarrow>
   step h (CHR ''+'' # cs) rest g l =
     (case negate_group cs g of
        (Some err, g') \<Rightarrow> Stop (Returned_err err) g'
      | (None, g') \<Rightarrow> Continue g' l)"
  by (auto simp add: step_def simp del: negate_group.simps)

section \<open>The awaited value, the terminator and empty tokens\<close>

subsection \<open>The awaited value\<close>

text \<open>
  The parser awaits a value for the descriptor at \<open>p\<close> when \<^verbatim>\<open>expecting_opt\<close> is set and
  the pointer of the kind \<^verbatim>\<open>expecting_optarg\<close> selects (\<^verbatim>\<open>waiting_opt\<close> for an \<^verbatim>\<open>OptArg\<close>,
  \<^verbatim>\<open>waiting_vec\<close> for an \<^verbatim>\<open>OptVec\<close>) holds \<open>p\<close>. In that state every non-empty token
  \<open>arg\<close>, whatever its shape, is taken as the value: it replaces \<^verbatim>\<open>Opt\<close> of the
  \<^verbatim>\<open>OptArg\<close>, or is appended to \<^verbatim>\<open>OptArgs\<close> of the \<^verbatim>\<open>OptVec\<close>, nothing else of the state
  changes, and the loop goes on with \<^verbatim>\<open>expecting_opt\<close> cleared. The token \<^verbatim>\<open>-c\<close> of an
  \<^verbatim>\<open>OptArg\<close> or \<^verbatim>\<open>OptVec\<close> leads to that state.
\<close>

lemma awaited_value_consumed:
  assumes "expecting_opt l" and "arg \<noteq> []"
  shows "(expecting_optarg l \<and> waiting_opt l = Some p \<longrightarrow>
            parse_loop h (arg # rest) g l =
              parse_loop h rest (set_Opt p arg g) (l\<lparr>expecting_opt := False\<rparr>)) \<and>
         (\<not> expecting_optarg l \<and> waiting_vec l = Some p \<longrightarrow>
            parse_loop h (arg # rest) g l =
              parse_loop h rest (set_OptArgs p (OptArgs (heapOptVec g p) @ [arg]) g)
                (l\<lparr>expecting_opt := False\<rparr>))"
  using assms by (simp add: step_awaiting_opt step_awaiting_vec)

lemma value_after_short_option:
  assumes "\<not> expecting_opt l" and "c \<noteq> CHR ''-''" and "arg \<noteq> []"
  shows "(optByShort g c = Some (POptArg p) \<longrightarrow>
            parse_loop h ([CHR ''-'', c] # arg # rest) g l =
              parse_loop h rest (set_Opt p arg g)
                (l\<lparr>waiting_opt := Some p, expecting_optarg := True, expecting_opt := False\<rparr>)) \<and>
         (optByShort g c = Some (POptVec p) \<longrightarrow>
            parse_loop h ([CHR ''-'', c] # arg # rest) g l =
              parse_loop h rest (set_OptArgs p (OptArgs (heapOptVec g p) @ [arg]) g)
                (l\<lparr>waiting_vec := Some p, expecting_optarg := False, expecting_opt := False\<rparr>))"
  using assms by (simp add: step_short step_awaiting_opt step_awaiting_vec)

text \<open>
  Claim C1. With a flag \<^verbatim>\<open>a\<close> and an \<^verbatim>\<open>OptArg\<close> \<^verbatim>\<open>f\<close> registered, the group \<^verbatim>\<open>-af\<close> ends in
  \<^verbatim>\<open>f\<close>, so the parser awaits a value for \<^verbatim>\<open>f\<close>: \<^verbatim>\<open>expecting_opt\<close> and \<^verbatim>\<open>expecting_optarg\<close>
  are set (lines 380-383). The path does not store the descriptor in \<^verbatim>\<open>waiting_opt\<close>, as
  the paths of \<^verbatim>\<open>-f\<close> (lines 276-278) and \<^verbatim>\<open>--file\<close> (lines 321-323) do, and the next token
  is assigned through the nil pointer (line 245): the call panics and \<^verbatim>\<open>Opt\<close> is not set.
  The same value after the separate tokens \<^verbatim>\<open>-a\<close> and \<^verbatim>\<open>-f\<close> is stored. When an earlier
  option has left its descriptor in \<^verbatim>\<open>waiting_opt\<close>, the value after the group goes to that
  descriptor: after \<^verbatim>\<open>-f in.txt\<close>, the value of \<^verbatim>\<open>-ao out.txt\<close> replaces the value of \<^verbatim>\<open>f\<close>,
  and \<^verbatim>\<open>o\<close> keeps its own.
\<close>

theorem C1_value_after_group_ending_in_OptArg:
  "ParseArgv default_StdinHandler [''-af'', ''hello.txt''] registry_about_file =
     (Panic_nil_dereference, set_Passed 0 True registry_about_file) \<and>
   Opt (heapOptArg (set_Passed 0 True registry_about_file) 1) = [] \<and>
   ParseArgv default_StdinHandler [''-a'', ''-f'', ''hello.txt''] registry_about_file =
     (Returned_nil, set_Opt 1 ''hello.txt'' (set_Passed 0 True registry_about_file)) \<and>
   ParseArgv default_StdinHandler [''-f'', ''in.txt'', ''-ao'', ''out.txt'']
       registry_about_file_output =
     (Returned_nil, set_Passed 0 True (set_Opt 1 ''out.txt'' registry_about_file_output))"
  by (simp add: ParseArgv_def initial_locals_def step_def finish_def registry_about_file_facts
        registry_about_file_output_facts set_Passed_def set_Opt_def)

subsection \<open>The terminator\<close>

lemma step_positional:
  "\<not> expecting_opt l \<Longrightarrow> positional arg \<Longrightarrow>
   step h arg rest g l = Continue (g\<lparr>Rest := Rest g @ [arg]\<rparr>) l"
  by (cases arg) (auto simp add: step_def positional_def)

lemma parse_loop_positional:
  "\<not> expecting_opt l \<Longrightarrow> \<forall>t\<in>set pos. positional t \<Longrightarrow>
   parse_loop h (pos @ toks) g l = parse_loop h toks (g\<lparr>Rest := Rest g @ pos\<rparr>) l"
proof (induction pos arbitrary: g)
  case Nil
  then show ?case by simp
next
  case (Cons t pos)
  then have "step h t (pos @ toks) g l = Continue (g\<lparr>Rest := Rest g @ [t]\<rparr>) l"
    by (intro step_positional) simp_all
  with Cons show ?case by simp
qed

text \<open>
  Claim C2. When the token \<^verbatim>\<open>--\<close> is met while no value is awaited, the call returns nil
  at once, and the state it leaves is the state before the token with all the tokens
  after \<^verbatim>\<open>--\<close> appended to \<^verbatim>\<open>Rest\<close>, as they are and in their order: no descriptor is
  touched, so none of them is read as an option. After positional tokens \<open>pos\<close>, which
  are in \<^verbatim>\<open>Rest\<close> already, the tokens after \<^verbatim>\<open>--\<close> follow them there.
\<close>

theorem C2_terminator_appends_remaining_tokens:
  assumes "\<not> expecting_opt l"
  shows "parse_loop h (''--'' # rest) g l = (Returned_nil, g\<lparr>Rest := Rest g @ rest\<rparr>) \<and>
         ((\<forall>t\<in>set pos. positional t) \<longrightarrow>
            parse_loop h (pos @ ''--'' # rest) g l =
              (Returned_nil, g\<lparr>Rest := Rest g @ pos @ rest\<rparr>))"
  using assms by (simp add: step_terminator parse_loop_positional)

theorem C2_witness:
  "\<not> expecting_opt initial_locals \<and> positional ''hello'' \<and>
   ParseArgv default_StdinHandler [''hello'', ''--'', ''--force'', '''', ''-f'', ''world'']
       registry_force =
     (Returned_nil, registry_force\<lparr>Rest := [''hello'', ''--force'', '''', ''-f'', ''world'']\<rparr>) \<and>
   Passed (heapFlag (registry_force\<lparr>Rest := [''hello'', ''--force'', '''', ''-f'', ''world'']\<rparr>) 0)
     = False"
proof -
  have l: "\<not> expecting_opt initial_locals"
    by (simp add: initial_locals_def)
  have p: "positional ''hello''"
    by (simp add: positional_def)
  from C2_terminator_appends_remaining_tokens
    [OF l, of default_StdinHandler "[''--force'', '''', ''-f'', ''world'']" registry_force
       "[''hello'']"] l p
  show ?thesis
    by (simp add: ParseArgv_def registry_force_facts)
qed

subsection \<open>Empty tokens\<close>

text \<open>
  Claim C9. An empty token is skipped in every state of the loop, also while a value is
  awaited, so an empty string given as a separate token never becomes the value. For an
  \<^verbatim>\<open>OptArg\<close> registered under a long name (not empty, without \<^verbatim>\<open>=\<close>), the call on the
  long option followed by the empty string returns the missing-argument error, built from
  \<^verbatim>\<open>Short\<close> and \<^verbatim>\<open>Long\<close> of the descriptor, and leaves the state as it was.
\<close>

theorem C9_empty_token_skipped_even_when_awaited:
  "parse_loop h ([] # rest) g l = parse_loop h rest g l \<and>
   (optByLong g long = Some (POptArg p) \<and> long \<noteq> [] \<and> CHR ''='' \<notin> set long \<longrightarrow>
      ParseArgv h [''--'' @ long, ''''] g =
        (Returned_err (MissingArgument (Short (heapOptArg g p)) (Long (heapOptArg g p))), g))"
  by (simp add: step_empty step_long_bare ParseArgv_def initial_locals_def finish_def
        del: append.simps)

theorem C9_witness:
  "optByLong registry_file ''file'' = Some (POptArg 0) \<and>
   ParseArgv default_StdinHandler [''--file'', ''''] registry_file =
     (Returned_err (MissingArgument (CHR ''f'') ''file''), registry_file)"
proof -
  have reg: "optByLong registry_file ''file'' = Some (POptArg 0)"
    and fields: "Short (heapOptArg registry_file 0) = CHR ''f''"
      "Long (heapOptArg registry_file 0) = ''file''"
    by (simp_all add: registry_file_facts)
  from C9_empty_token_skipped_even_when_awaited
    [of default_StdinHandler "[]" registry_file initial_locals "''file''" 0] reg
  have "ParseArgv default_StdinHandler [''--file'', ''''] registry_file =
      (Returned_err (MissingArgument (Short (heapOptArg registry_file 0))
         (Long (heapOptArg registry_file 0))), registry_file)"
    by simp
  with reg fields show ?thesis by simp
qed

section \<open>Unknown options\<close>

subsection \<open>Groups of short options\<close>

lemma short_group_unknown_after_flags_counters:
  assumes "\<forall>x\<in>set pre. \<exists>p. optByShort g x = Some (PFlag p) \<or> optByShort g x = Some (POptCount p)"
    and "optByShort g c = None"
  shows "\<exists>g'. short_group pre g l = (None, g', l) \<and>
           short_group (pre @ c # post) g l = (Some (UnrecognizedShort c), g', l) \<and>
           optByShort g' = optByShort g \<and>
           (\<forall>p. Passed (heapFlag g p) \<longrightarrow> Passed (heapFlag g' p)) \<and>
           (\<forall>x\<in>set pre. \<forall>p. optByShort g x = Some (PFlag p) \<longrightarrow> Passed (heapFlag g' p))"
  using assms
proof (induction pre arbitrary: g)
  case Nil
  then show ?case by simp
next
  case (Cons x pre)
  from Cons.prems(1) obtain p where
    x: "optByShort g x = Some (PFlag p) \<or> optByShort g x = Some (POptCount p)"
    by auto
  then show ?case
  proof
    assume f: "optByShort g x = Some (PFlag p)"
    let ?g = "set_Passed p True g"
    have "\<forall>y\<in>set pre. \<exists>q. optByShort ?g y = Some (PFlag q) \<or> optByShort ?g y = Some (POptCount q)"
      using Cons.prems(1) by simp
    moreover have "optByShort ?g c = None"
      using Cons.prems(2) by simp
    ultimately obtain g' where g': "short_group pre ?g l = (None, g', l)"
      "short_group (pre @ c # post) ?g l = (Some (UnrecognizedShort c), g', l)"
      "optByShort g' = optByShort ?g"
      "\<forall>q. Passed (heapFlag ?g q) \<longrightarrow> Passed (heapFlag g' q)"
      "\<forall>y\<in>set pre. \<forall>q. optByShort ?g y = Some (PFlag q) \<longrightarrow> Passed (heapFlag g' q)"
      using Cons.IH [of ?g] by blast
    have keep: "Passed (heapFlag g q) \<longrightarrow> Passed (heapFlag ?g q)" for q
      by (simp add: set_Passed_def)
    have "Passed (heapFlag g' p)"
      using g'(4) by simp
    with f g' keep show ?thesis
      by (intro exI [of _ g']) auto
  next
    assume n: "optByShort g x = Some (POptCount p)"
    let ?g = "set_Count p (Count (heapOptCount g p) + 1) g"
    have "\<forall>y\<in>set pre. \<exists>q. optByShort ?g y = Some (PFlag q) \<or> optByShort ?g y = Some (POptCount q)"
      using Cons.prems(1) by simp
    moreover have "optByShort ?g c = None"
      using Cons.prems(2) by simp
    ultimately obtain g' where g': "short_group pre ?g l = (None, g', l)"
      "short_group (pre @ c # post) ?g l = (Some (UnrecognizedShort c), g', l)"
      "optByShort g' = optByShort ?g"
      "\<forall>q. Passed (heapFlag ?g q) \<longrightarrow> Passed (heapFlag g' q)"
      "\<forall>y\<in>set pre. \<forall>q. optByShort ?g y = Some (PFlag q) \<longrightarrow> Passed (heapFlag g' q)"
      using Cons.IH [of ?g] by blast
    with n show ?thesis
      by (intro exI [of _ g']) auto
  qed
qed

lemma apply_negate_optByShort [simp]: "optByShort (apply_negate v g) = optByShort g"
  by (cases v) simp_all

lemma negate_group_unknown:
  assumes "\<forall>x\<in>set pre. optByShort g x \<noteq> None" and "optByShort g c = None"
  shows "\<exists>g'. negate_group pre g = (None, g') \<and>
           negate_group (pre @ c # post) g = (Some (UnrecognizedShort c), g')"
  using assms
proof (induction pre arbitrary: g)
  case Nil
  then show ?case by simp
next
  case (Cons x pre)
  then obtain v where v: "optByShort g x = Some v" by auto
  have "\<forall>y\<in>set pre. optByShort (apply_negate v g) y \<noteq> None"
    and "optByShort (apply_negate v g) c = None"
    using Cons.prems by simp_all
  from Cons.IH [OF this] v show ?case by simp
qed

text \<open>
  Claim C7, as amended. A token of three or more characters starting with \<^verbatim>\<open>-\<close> (and
  not \<^verbatim>\<open>--\<close>) or with \<^verbatim>\<open>+\<close> is scanned character by character. Let \<open>c\<close> be a character
  of the group that is not in \<^verbatim>\<open>optByShort\<close>, after the characters \<open>pre\<close>. In a
  \<^verbatim>\<open>+\<close> group whose earlier characters are all known, and in a \<^verbatim>\<open>-\<close> group whose
  earlier characters all name a \<^verbatim>\<open>Flag\<close> or an \<^verbatim>\<open>OptCount\<close>, the scan reaches \<open>c\<close>, and
  the call returns at once the error for the unrecognized short option \<open>c\<close>. The state
  it leaves is the state \<open>g'\<close> that the earlier characters alone produce from the state
  \<open>g\<close> before the token (itself the work of the earlier tokens): nothing is rolled back;
  in particular every flag named before \<open>c\<close> in a \<^verbatim>\<open>-\<close> group is set.
\<close>

theorem C7_unknown_character_reached_in_group_fails_without_rollback:
  assumes "\<not> expecting_opt l" and "optByShort g c = None" and "2 \<le> length (pre @ c # post)"
  shows "(hd (pre @ [c]) \<noteq> CHR ''-'' \<and>
          (\<forall>x\<in>set pre. \<exists>p. optByShort g x = Some (PFlag p) \<or> optByShort g x = Some (POptCount p)) \<longrightarrow>
            (\<exists>g'. short_group pre g l = (None, g', l) \<and>
                   parse_loop h ((CHR ''-'' # pre @ c # post) # rest) g l =
                     (Returned_err (UnrecognizedShort c), g') \<and>
                   (\<forall>x\<in>set pre. \<forall>p. optByShort g x = Some (PFlag p) \<longrightarrow> Passed (heapFlag g' p)))) \<and>
         ((\<forall>x\<in>set pre. optByShort g x \<noteq> None) \<longrightarrow>
            (\<exists>g'. negate_group pre g = (None, g') \<and>
                   parse_loop h ((CHR ''+'' # pre @ c # post) # rest) g l =
                     (Returned_err (UnrecognizedShort c), g')))"
proof (intro conjI impI)
  assume a: "hd (pre @ [c]) \<noteq> CHR ''-'' \<and>
    (\<forall>x\<in>set pre. \<exists>p. optByShort g x = Some (PFlag p) \<or> optByShort g x = Some (POptCount p))"
  obtain y ys where ys: "pre @ c # post = y # ys" "ys \<noteq> []" "y \<noteq> CHR ''-''"
    using assms(3) a by (cases pre; cases post) auto
  from short_group_unknown_after_flags_counters [of pre g c l post] a assms(2)
  obtain g' where g': "short_group pre g l = (None, g', l)"
    "short_group (pre @ c # post) g l = (Some (UnrecognizedShort c), g', l)"
    "\<forall>x\<in>set pre. \<forall>p. optByShort g x = Some (PFlag p) \<longrightarrow> Passed (heapFlag g' p)"
    by blast
  have "step h (CHR ''-'' # pre @ c # post) rest g l = Stop (Returned_err (UnrecognizedShort c)) g'"
    using step_short_group [OF assms(1) ys(3) ys(2), of h rest g] g'(2) ys(1) by simp
  with g' show "\<exists>g'. short_group pre g l = (None, g', l) \<and>
      parse_loop h ((CHR ''-'' # pre @ c # post) # rest) g l =
        (Returned_err (UnrecognizedShort c), g') \<and>
      (\<forall>x\<in>set pre. \<forall>p. optByShort g x = Some (PFlag p) \<longrightarrow> Passed (heapFlag g' p))"
    by (intro exI [of _ g']) simp
next
  assume a: "\<forall>x\<in>set pre. optByShort g x \<noteq> None"
  from negate_group_unknown [OF a assms(2), of post]
  obtain g' where g': "negate_group pre g = (None, g')"
    "negate_group (pre @ c # post) g = (Some (UnrecognizedShort c), g')"
    by blast
  have "step h (CHR ''+'' # pre @ c # post) rest g l = Stop (Returned_err (UnrecognizedShort c)) g'"
    using step_negate_group [OF assms(1) assms(3), of h rest g] g'(2) by simp
  with g' show "\<exists>g'. negate_group pre g = (None, g') \<and>
      parse_loop h ((CHR ''+'' # pre @ c # post) # rest) g l =
        (Returned_err (UnrecognizedShort c), g')"
    by (intro exI [of _ g']) simp
qed

text \<open>
  The claim as stated covers every group that contains an unknown character. In a
  \<^verbatim>\<open>-\<close> group the scan stops at an \<^verbatim>\<open>OptArg\<close> or \<^verbatim>\<open>OptVec\<close> character that is not the
  last one, and the rest of the token is its value: \<^verbatim>\<open>-fhello.txt\<close> of
  TestShortOptArgConn contains \<^verbatim>\<open>h\<close>, which is not registered, and the call succeeds.
\<close>

theorem C7_counterexample:
  "optByShort registry_file (CHR ''h'') = None \<and>
   ParseArgv default_StdinHandler [''-fhello.txt''] registry_file =
     (Returned_nil, set_Opt 0 ''hello.txt'' registry_file)"
  by (simp add: ParseArgv_def initial_locals_def step_def finish_def registry_file_facts)

theorem C7_witness:
  "\<not> expecting_opt initial_locals \<and> optByShort registry_about_file (CHR ''x'') = None \<and>
   parse_loop default_StdinHandler [''-ax'', ''-f''] registry_about_file initial_locals =
     (Returned_err (UnrecognizedShort (CHR ''x'')), set_Passed 0 True registry_about_file) \<and>
   Passed (heapFlag (set_Passed 0 True registry_about_file) 0) \<and>
   parse_loop default_StdinHandler [''+fax'', ''-f''] registry_about_file initial_locals =
     (Returned_err (UnrecognizedShort (CHR ''x'')),
      set_Passed 0 False (set_Opt 1 [] registry_about_file))"
proof -
  have l: "\<not> expecting_opt initial_locals"
    by (simp add: initial_locals_def)
  have c: "optByShort registry_about_file (CHR ''x'') = None"
    by (simp add: registry_about_file_facts)
  have pos: "short_group ''a'' registry_about_file initial_locals =
      (None, set_Passed 0 True registry_about_file, initial_locals)"
    and neg: "negate_group ''fa'' registry_about_file =
      (None, set_Passed 0 False (set_Opt 1 [] registry_about_file))"
    by (simp_all add: registry_about_file_facts)
  from C7_unknown_character_reached_in_group_fails_without_rollback
    [OF l c, of "''a''" "[]" default_StdinHandler "[''-f'']"] pos
  have 1: "parse_loop default_StdinHandler [''-ax'', ''-f''] registry_about_file initial_locals =
     (Returned_err (UnrecognizedShort (CHR ''x'')), set_Passed 0 True registry_about_file)"
    by (auto simp add: registry_about_file_facts)
  from C7_unknown_character_reached_in_group_fails_without_rollback
    [OF l c, of "''fa''" "[]" default_StdinHandler "[''-f'']"] neg
  have 2: "parse_loop default_StdinHandler [''+fax'', ''-f''] registry_about_file initial_locals =
     (Returned_err (UnrecognizedShort (CHR ''x'')),
      set_Passed 0 False (set_Opt 1 [] registry_about_file))"
    by (auto simp add: registry_about_file_facts)
  from l c 1 2 show ?thesis by simp
qed

subsection \<open>Two-character tokens\<close>

text \<open>
  Claim C8, as amended. While no value is awaited, a token \<^verbatim>\<open>-c\<close> with \<open>c\<close> other than
  \<^verbatim>\<open>-\<close>, or a token \<^verbatim>\<open>+c\<close>, whose character is not in \<^verbatim>\<open>optByShort\<close> is passed over: the loop
  goes on with the next token in the same state, so no error is returned, \<^verbatim>\<open>Rest\<close> is
  as it was and no descriptor has changed. By contrast, the same unknown character at the
  head of a group (\<^verbatim>\<open>-c...\<close> or \<^verbatim>\<open>+c...\<close>) and an unknown long name without \<^verbatim>\<open>=\<close> end the call
  with an error.
\<close>

theorem C8_unknown_two_character_option_ignored:
  assumes "\<not> expecting_opt l" and "optByShort g c = None"
  shows "(c \<noteq> CHR ''-'' \<longrightarrow> parse_loop h ([CHR ''-'', c] # rest) g l = parse_loop h rest g l) \<and>
         parse_loop h ([CHR ''+'', c] # rest) g l = parse_loop h rest g l \<and>
         (c \<noteq> CHR ''-'' \<and> cs \<noteq> [] \<longrightarrow>
            parse_loop h ((CHR ''-'' # c # cs) # rest) g l = (Returned_err (UnrecognizedShort c), g)) \<and>
         (cs \<noteq> [] \<longrightarrow>
            parse_loop h ((CHR ''+'' # c # cs) # rest) g l = (Returned_err (UnrecognizedShort c), g)) \<and>
         (name \<noteq> [] \<and> CHR ''='' \<notin> set name \<and> optByLong g name = None \<longrightarrow>
            parse_loop h ((''--'' @ name) # rest) g l = (Returned_err (UnrecognizedLong name), g))"
proof -
  have "2 \<le> length (c # cs)" if "cs \<noteq> []"
    using that by (cases cs) simp_all
  then show ?thesis
    using assms
    by (simp add: step_short step_plus step_short_group step_negate_group step_long_bare
          del: append.simps)
qed

text \<open>
  The claim as stated covers the token \<^verbatim>\<open>--\<close>, whose second character is as a rule not a
  registered short option: that token is the terminator (line 264, tested before the
  lookup), and the tokens after it go to \<^verbatim>\<open>Rest\<close>.
\<close>

theorem C8_counterexample:
  "optByShort registry_file (CHR ''-'') = None \<and> Rest registry_file = [] \<and>
   ParseArgv default_StdinHandler [''--'', ''-f'', ''a.txt''] registry_file =
     (Returned_nil, registry_file\<lparr>Rest := [''-f'', ''a.txt'']\<rparr>) \<and>
   ParseArgv default_StdinHandler [''-f'', ''a.txt''] registry_file =
     (Returned_nil, set_Opt 0 ''a.txt'' registry_file)"
  by (simp add: ParseArgv_def initial_locals_def step_def finish_def registry_file_facts)

theorem C8_witness:
  "\<not> expecting_opt initial_locals \<and> optByShort registry_file (CHR ''z'') = None \<and>
   parse_loop default_StdinHandler [''-z''] registry_file initial_locals =
     (Returned_nil, registry_file) \<and>
   parse_loop default_StdinHandler [''+z''] registry_file initial_locals =
     (Returned_nil, registry_file) \<and>
   parse_loop default_StdinHandler [''-zf''] registry_file initial_locals =
     (Returned_err (UnrecognizedShort (CHR ''z'')), registry_file) \<and>
   parse_loop default_StdinHandler [''+zf''] registry_file initial_locals =
     (Returned_err (UnrecognizedShort (CHR ''z'')), registry_file) \<and>
   parse_loop default_StdinHandler [''--zeta''] registry_file initial_locals =
     (Returned_err (UnrecognizedLong ''zeta''), registry_file)"
proof -
  have l: "\<not> expecting_opt initial_locals"
    by (simp add: initial_locals_def)
  have c: "optByShort registry_file (CHR ''z'') = None"
    and n: "optByLong registry_file ''zeta'' = None"
    by (simp_all add: registry_file_facts)
  from C8_unknown_two_character_option_ignored
    [OF l c, of default_StdinHandler "[]" "''f''" "''zeta''"] l c n
  show ?thesis by (simp add: finish_def)
qed

section \<open>The end of the tokens while a value is awaited\<close>

text \<open>
  Claim C6. Each of the paths that enter the awaiting state for an \<^verbatim>\<open>OptArg\<close> from a
  token \<^verbatim>\<open>-c\<close> (lines 275-278) or \<^verbatim>\<open>--long\<close> (lines 320-323) stores the descriptor in
  \<^verbatim>\<open>waiting_opt\<close>; the path of the last character of a group (lines 380-383) sets
  \<^verbatim>\<open>expecting_opt\<close> and \<^verbatim>\<open>expecting_optarg\<close> only. With a flag \<^verbatim>\<open>a\<close> and an \<^verbatim>\<open>OptArg\<close>
  \<^verbatim>\<open>f\<close> registered, the call on the single token \<^verbatim>\<open>-af\<close> ends while a value for \<^verbatim>\<open>f\<close> is
  awaited; \<^verbatim>\<open>waiting_opt\<close> is still nil, and formatting the error from
  \<^verbatim>\<open>waiting_opt.Short\<close> (line 436) panics: no missing-argument error is returned. The
  call on the separate tokens \<^verbatim>\<open>-a\<close> and \<^verbatim>\<open>-f\<close> returns the error that names \<^verbatim>\<open>f\<close> and
  \<^verbatim>\<open>file\<close>. When an earlier option has left its descriptor in \<^verbatim>\<open>waiting_opt\<close>, the error
  names that descriptor: after \<^verbatim>\<open>-f in.txt\<close>, the tokens end with the group \<^verbatim>\<open>-ao\<close> and the
  error names \<^verbatim>\<open>f\<close> and \<^verbatim>\<open>file\<close>, not \<^verbatim>\<open>o\<close> and \<^verbatim>\<open>output\<close>.
\<close>

theorem C6_group_ending_in_OptArg_leaves_pointer_nil:
  "ParseArgv default_StdinHandler [''-af''] registry_about_file =
     (Panic_nil_dereference, set_Passed 0 True registry_about_file) \<and>
   ParseArgv default_StdinHandler [''-a'', ''-f''] registry_about_file =
     (Returned_err (MissingArgument (CHR ''f'') ''file''),
      set_Passed 0 True registry_about_file) \<and>
   ParseArgv default_StdinHandler [''-f'', ''in.txt'', ''-ao''] registry_about_file_output =
     (Returned_err (MissingArgument (CHR ''f'') ''file''),
      set_Passed 0 True (set_Opt 1 ''in.txt'' registry_about_file_output))"
  by (simp add: ParseArgv_def initial_locals_def step_def finish_def registry_about_file_facts
        registry_about_file_output_facts)

section \<open>An option with a single value\<close>

lemma occurrence_sets_Opt:
  assumes reg: "optByShort g x = Some (POptArg p)" "optByLong g long = Some (POptArg p)"
    and names: "x \<noteq> CHR ''-''" "long \<noteq> []" "CHR ''='' \<notin> set long"
    and V: "f = Long_equals \<or> V \<noteq> []"
    and l: "\<not> expecting_opt l"
  shows "\<exists>l'. \<not> expecting_opt l' \<and>
           parse_loop h (occurrence f x long V @ rest) g l = parse_loop h rest (set_Opt p V g) l'"
proof (cases f)
  case Long_equals
  have "step h (''--'' @ long @ ''='' @ V) (rest) g l = Continue (set_Opt p V g) l"
    using step_long_assign [OF l names(3), of h V rest g] reg(2) by simp
  with Long_equals l show ?thesis
    by (intro exI [of _ l]) simp
next
  case Long_separate
  let ?l = "l\<lparr>waiting_opt := Some p, expecting_opt := True, expecting_optarg := True\<rparr>"
  have 1: "step h (''--'' @ long) (V # rest) g l = Continue g ?l"
    using step_long_bare [OF l names(2,3), of h "V # rest" g] reg(2) by simp
  have 2: "step h V rest g ?l = Continue (set_Opt p V g) (?l\<lparr>expecting_opt := False\<rparr>)"
    using V Long_separate by (intro step_awaiting_opt) simp_all
  from Long_separate 1 2 show ?thesis
    by (intro exI [of _ "?l\<lparr>expecting_opt := False\<rparr>"]) simp
next
  case Short_attached
  have "step h (CHR ''-'' # x # V) rest g l = Continue (set_Opt p V g) l"
    using step_short_group [OF l names(1), of V h rest g] V Short_attached reg(1) by simp
  with Short_attached l show ?thesis
    by (intro exI [of _ l]) simp
qed

text \<open>
  Claim C3, as amended. Let an \<^verbatim>\<open>OptArg\<close> be registered under the short character \<open>x\<close>
  and the long name \<open>long\<close>, names under which the three forms are read as such: \<open>x\<close> is
  not \<^verbatim>\<open>-\<close>, \<open>long\<close> is not empty and has no \<^verbatim>\<open>=\<close>. For every value \<open>V\<close> in the form
  \<^verbatim>\<open>--long=V\<close>, and for every value that is not empty in the two-token form and in the
  attached form \<^verbatim>\<open>-xV\<close>, an occurrence met while no value is awaited leaves \<^verbatim>\<open>Opt\<close> equal
  to \<open>V\<close>, whatever it was, with nothing else changed and no value awaited after it;
  alone it makes the call return nil; and of two occurrences the later one decides the
  value.
\<close>

theorem C3_each_form_sets_the_value_and_later_overwrites:
  assumes "optByShort g x = Some (POptArg p)" and "optByLong g long = Some (POptArg p)"
    and "x \<noteq> CHR ''-''" and "long \<noteq> []" and "CHR ''='' \<notin> set long"
    and "f = Long_equals \<or> V \<noteq> []"
  shows "(\<not> expecting_opt l \<longrightarrow>
            (\<exists>l'. \<not> expecting_opt l' \<and>
               parse_loop h (occurrence f x long V @ rest) g l =
                 parse_loop h rest (set_Opt p V g) l')) \<and>
         Opt (heapOptArg (set_Opt p V g) p) = V \<and>
         ParseArgv h (occurrence f x long V) g = (Returned_nil, set_Opt p V g) \<and>
         (f' = Long_equals \<or> V' \<noteq> [] \<longrightarrow>
            ParseArgv h (occurrence f' x long V' @ occurrence f x long V) g =
              (Returned_nil, set_Opt p V g))"
proof (intro conjI impI)
  assume "\<not> expecting_opt l"
  with assms show "\<exists>l'. \<not> expecting_opt l' \<and>
      parse_loop h (occurrence f x long V @ rest) g l = parse_loop h rest (set_Opt p V g) l'"
    by (intro occurrence_sets_Opt)
next
  show "Opt (heapOptArg (set_Opt p V g) p) = V" by simp
next
  have i: "\<not> expecting_opt initial_locals"
    by (simp add: initial_locals_def)
  from occurrence_sets_Opt [OF assms i, of h "[]"]
  show "ParseArgv h (occurrence f x long V) g = (Returned_nil, set_Opt p V g)"
    by (auto simp add: ParseArgv_def finish_def)
next
  assume V': "f' = Long_equals \<or> V' \<noteq> []"
  have i: "\<not> expecting_opt initial_locals"
    by (simp add: initial_locals_def)
  from occurrence_sets_Opt [OF assms(1-5) V' i, of h "occurrence f x long V"]
  obtain l' where l': "\<not> expecting_opt l'"
    "parse_loop h (occurrence f' x long V' @ occurrence f x long V) g initial_locals =
       parse_loop h (occurrence f x long V) (set_Opt p V' g) l'"
    by blast
  from occurrence_sets_Opt [of "set_Opt p V' g" x p long f V l' h "[]"] assms l'(1)
  have "fst (parse_loop h (occurrence f x long V) (set_Opt p V' g) l') = Returned_nil \<and>
        snd (parse_loop h (occurrence f x long V) (set_Opt p V' g) l') = set_Opt p V g"
    by (auto simp add: finish_def)
  with l'(2) show "ParseArgv h (occurrence f' x long V' @ occurrence f x long V) g =
      (Returned_nil, set_Opt p V g)"
    by (simp add: ParseArgv_def prod_eq_iff)
qed

text \<open>
  The claim fails for the empty value given as a token of its own: the token is skipped
  (line 241), the earlier value stays and the call returns the missing-argument error.
\<close>

theorem C3_counterexample:
  "ParseArgv default_StdinHandler
       (occurrence Long_equals (CHR ''f'') ''file'' ''old'' @
        occurrence Long_separate (CHR ''f'') ''file'' '''') registry_file =
     (Returned_err (MissingArgument (CHR ''f'') ''file''), set_Opt 0 ''old'' registry_file) \<and>
   Opt (heapOptArg (set_Opt 0 ''old'' registry_file) 0) = ''old''"
  by (simp add: ParseArgv_def initial_locals_def step_def finish_def registry_file_facts)

theorem C3_witness:
  "optByShort registry_file (CHR ''f'') = Some (POptArg 0) \<and>
   optByLong registry_file ''file'' = Some (POptArg 0) \<and>
   ParseArgv default_StdinHandler [''--file'', ''hello.txt''] registry_file =
     (Returned_nil, set_Opt 0 ''hello.txt'' registry_file) \<and>
   ParseArgv default_StdinHandler [''-fa.txt'', ''--file'', ''hello.txt''] registry_file =
     (Returned_nil, set_Opt 0 ''hello.txt'' registry_file)"
proof -
  have reg: "optByShort registry_file (CHR ''f'') = Some (POptArg 0)"
    "optByLong registry_file ''file'' = Some (POptArg 0)"
    by (simp_all add: registry_file_facts)
  from C3_each_form_sets_the_value_and_later_overwrites
    [OF reg, of Long_separate "''hello.txt''" initial_locals default_StdinHandler "[]"
       Short_attached "''a.txt''"] reg
  show ?thesis by simp
qed

section \<open>Flags and counters\<close>

subsection \<open>Bytes and case folding\<close>

lemma char_le_byte: "a \<le> b \<longleftrightarrow> byte a \<le> byte b"
  by (simp add: byte_def less_eq_char_def)

lemma char_eq_byte: "a = b \<longleftrightarrow> byte a = byte b"
  by (simp add: byte_def)

lemma byte_less_256: "byte c < 256"
  by (simp add: byte_def)

lemma char_of_eq_byte: "n < 256 \<Longrightarrow> char_of n = c \<longleftrightarrow> n = byte c"
  by (simp add: byte_def char_of_eq_iff take_bit_eq_mod)

lemma ascii_fold_eq_lower:
  assumes "CHR ''a'' \<le> tr" and "tr \<le> CHR ''z''"
  shows "ascii_fold_eq sr tr = (ascii_lower sr = tr)"
proof -
  have m: "97 \<le> byte tr" "byte tr \<le> 122"
    using assms by (simp_all add: char_le_byte) (simp_all add: byte_def)
  have A: "byte (CHR ''A'') = 65" and Z: "byte (CHR ''Z'') = 90"
    by (simp_all add: byte_def)
  show ?thesis
  proof (cases "65 \<le> byte sr \<and> byte sr \<le> 90")
    case True
    then have "byte sr + 32 < 256" by simp
    from char_of_eq_byte [OF this, of tr] True m show ?thesis
      by (auto simp add: ascii_fold_eq_def ascii_lower_def Let_def min_def max_def
            char_le_byte A Z char_eq_byte [of tr sr] char_eq_byte [of sr tr])
  next
    case False
    with m show ?thesis
      by (auto simp add: ascii_fold_eq_def ascii_lower_def Let_def min_def max_def
            char_le_byte A Z char_eq_byte [of tr sr] char_eq_byte [of sr tr])
  qed
qed

lemma ascii_lower_ascii:
  assumes "ascii_lower c = t" and "t \<le> CHR ''z''"
  shows "byte c < 128"
proof -
  have "byte t \<le> 122"
    using assms(2) by (simp add: char_le_byte) (simp add: byte_def)
  moreover have "byte (CHR ''A'') = 65" and "byte (CHR ''Z'') = 90"
    by (simp_all add: byte_def)
  ultimately show ?thesis
    using assms(1) by (auto simp add: ascii_lower_def char_le_byte split: if_splits)
qed

lemma EqualFold_ascii:
  assumes "\<forall>c\<in>set V. byte c < 128" and "\<forall>c\<in>set t. CHR ''a'' \<le> c \<and> c \<le> CHR ''z''"
  shows "EqualFold V t = (map ascii_lower V = t)"
  using assms
proof (induction V t rule: EqualFold.induct)
  case (4 sr s tr t)
  then show ?case by (simp add: ascii_fold_eq_lower)
qed simp_all

lemma lower_literal_ascii:
  assumes "map ascii_lower V = t" and "\<forall>c\<in>set t. c \<le> CHR ''z''"
  shows "\<forall>c\<in>set V. byte c < 128"
proof
  fix c assume "c \<in> set V"
  with assms have "ascii_lower c \<in> set t" by auto
  with assms(2) have "ascii_lower c \<le> CHR ''z''" by simp
  then show "byte c < 128" by (intro ascii_lower_ascii [of c "ascii_lower c"]) simp_all
qed

lemma optargToBool_ascii:
  assumes "\<forall>c\<in>set V. byte c < 128"
  shows "optargToBool V = (case bool_literal V of Some b \<Rightarrow> Inr b | None \<Rightarrow> Inl BooleanParseError)"
proof -
  have "EqualFold V ''t'' = (map ascii_lower V = ''t'')"
    "EqualFold V ''f'' = (map ascii_lower V = ''f'')"
    "EqualFold V ''true'' = (map ascii_lower V = ''true'')"
    "EqualFold V ''false'' = (map ascii_lower V = ''false'')"
    using assms by (simp_all add: EqualFold_ascii)
  then show ?thesis
    by (simp add: optargToBool_def bool_literal_def Let_def)
qed

lemma optargToBool_literal:
  assumes "bool_literal V = Some b"
  shows "optargToBool V = Inr b"
proof -
  from assms obtain t where t: "map ascii_lower V = t" "t \<in> {''t'', ''true'', ''f'', ''false''}"
    by (auto simp add: bool_literal_def Let_def split: if_splits)
  then have "\<forall>c\<in>set t. c \<le> CHR ''z''" by auto
  with t(1) have "\<forall>c\<in>set V. byte c < 128" by (rule lower_literal_ascii)
  with assms show ?thesis by (simp add: optargToBool_ascii)
qed

lemma EqualFold_fold_string:
  assumes "\<forall>c\<in>set t. CHR ''a'' \<le> c \<and> c \<le> CHR ''z''"
  shows "EqualFold V t = (fold_string V = t)"
  using assms
proof (induction V t rule: EqualFold.induct)
  case (4 sr s tr t)
  have tr: "97 \<le> byte tr" "byte tr \<le> 122"
    using "4.prems" by (simp_all add: char_le_byte) (simp_all add: byte_def)
  have t: "\<forall>c\<in>set t. CHR ''a'' \<le> c \<and> c \<le> CHR ''z''"
    using "4.prems" by simp
  have k: "byte (CHR ''S'') = 83" "byte (CHR ''K'') = 75"
    by (simp_all add: byte_def)
  from tr k have up: "tr \<noteq> CHR ''S''" "tr \<noteq> CHR ''K''"
    by auto
  show ?case
  proof (cases "byte sr < 128")
    case True
    with "4.IH"(1) t "4.prems" show ?thesis
      by (simp add: ascii_fold_eq_lower)
  next
    case False
    with tr have ne: "sr \<noteq> tr" by auto
    show ?thesis
    proof (cases "sr = CHR 0xC5 \<and> take 1 s = [CHR 0xBF]")
      case s: True
      with False "4.IH"(2) t up show ?thesis by auto
    next
      case ns: False
      show ?thesis
      proof (cases "sr = CHR 0xE2 \<and> take 2 s = [CHR 0x84, CHR 0xAA]")
        case True
        with False ns "4.IH"(3) t up show ?thesis by auto
      next
        case False
        with \<open>\<not> byte sr < 128\<close> ns ne show ?thesis by auto
      qed
    qed
  qed
qed simp_all

lemma optargToBool_folded:
  "optargToBool V =
     (case folded_bool_literal V of Some b \<Rightarrow> Inr b | None \<Rightarrow> Inl BooleanParseError)"
proof -
  have "EqualFold V ''t'' = (fold_string V = ''t'')"
    "EqualFold V ''f'' = (fold_string V = ''f'')"
    "EqualFold V ''true'' = (fold_string V = ''true'')"
    "EqualFold V ''false'' = (fold_string V = ''false'')"
    by (simp_all add: EqualFold_fold_string)
  then show ?thesis
    by (simp add: optargToBool_def folded_bool_literal_def Let_def)
qed

lemma folded_bool_literal_examples:
  "folded_bool_literal (''fal'' @ [CHR 0xC5, CHR 0xBF] @ ''e'') = Some False"
  "bool_literal (''fal'' @ [CHR 0xC5, CHR 0xBF] @ ''e'') = None"
  "folded_bool_literal (''tru'' @ [CHR 0xC3, CHR 0xA9]) = None"
  "folded_bool_literal ''TRUE'' = Some True"
  "folded_bool_literal ''Fase'' = None"
  by (simp_all add: folded_bool_literal_def bool_literal_def ascii_lower_def byte_def Let_def
        char_of_eq_iff)

subsection \<open>A decimal digit as a counter value\<close>

lemma ParseInt_3: "ParseInt ''3'' 0 32 = (3, None)"
  by (simp add: ParseInt_def ParseUint_def digit_def byte_def lower_def IntSize_def)

subsection \<open>Flags\<close>

lemma bool_literal_examples:
  "bool_literal ''false'' = Some False" "bool_literal ''F'' = Some False"
  "bool_literal ''True'' = Some True" "bool_literal ''Fase'' = None"
  by (simp_all add: bool_literal_def ascii_lower_def byte_def Let_def char_of_eq_iff)

text \<open>
  Claim C5, as amended. Let a \<^verbatim>\<open>Flag\<close> be registered under the short character \<open>x\<close> and
  the long name \<open>long\<close>, and let no value be awaited. The token \<^verbatim>\<open>-x\<close> (for \<open>x\<close> other than
  \<^verbatim>\<open>-\<close>: the token \<^verbatim>\<open>--\<close> is the terminator) and the token \<^verbatim>\<open>--long\<close> (for a name that is
  not empty and has no \<^verbatim>\<open>=\<close>) set \<^verbatim>\<open>Passed\<close> to true; \<^verbatim>\<open>+x\<close>, \<^verbatim>\<open>--long=false\<close> and
  \<^verbatim>\<open>--long=F\<close> set it to false; \<^verbatim>\<open>--long=Fase\<close> makes the call return the boolean-parse
  error and changes nothing. For every value \<open>V\<close>, of any bytes: \<^verbatim>\<open>--long=V\<close> sets \<^verbatim>\<open>Passed\<close>
  to \<open>b\<close> when \<open>V\<close> is the literal of \<open>b\<close> under Unicode simple case folding
  (\<open>folded_bool_literal\<close>: either case of each ASCII letter, and the long s for \<^verbatim>\<open>s\<close>), and
  returns the boolean-parse error, with the state unchanged, when it is none of the four
  literals under that folding. A value that is a literal up to the case of its ASCII
  letters (\<open>bool_literal\<close>) is among the accepted ones, and a string of ASCII bytes that
  is none is refused.
\<close>

theorem C5_flag_forms:
  assumes "optByShort g x = Some (PFlag p)" and "optByLong g long = Some (PFlag p)"
    and "\<not> expecting_opt l"
  shows "(x \<noteq> CHR ''-'' \<longrightarrow>
            parse_loop h ([CHR ''-'', x] # rest) g l = parse_loop h rest (set_Passed p True g) l) \<and>
         (long \<noteq> [] \<and> CHR ''='' \<notin> set long \<longrightarrow>
            parse_loop h ((''--'' @ long) # rest) g l = parse_loop h rest (set_Passed p True g) l) \<and>
         parse_loop h ([CHR ''+'', x] # rest) g l = parse_loop h rest (set_Passed p False g) l \<and>
         (CHR ''='' \<notin> set long \<longrightarrow>
            parse_loop h ((''--'' @ long @ ''=false'') # rest) g l =
              parse_loop h rest (set_Passed p False g) l \<and>
            parse_loop h ((''--'' @ long @ ''=F'') # rest) g l =
              parse_loop h rest (set_Passed p False g) l \<and>
            parse_loop h ((''--'' @ long @ ''=Fase'') # rest) g l =
              (Returned_err BooleanParseError, g)) \<and>
         (CHR ''='' \<notin> set long \<and> folded_bool_literal V = Some b \<longrightarrow>
            parse_loop h ((''--'' @ long @ ''='' @ V) # rest) g l =
              parse_loop h rest (set_Passed p b g) l) \<and>
         (CHR ''='' \<notin> set long \<and> folded_bool_literal V = None \<longrightarrow>
            parse_loop h ((''--'' @ long @ ''='' @ V) # rest) g l =
              (Returned_err BooleanParseError, g)) \<and>
         (CHR ''='' \<notin> set long \<and> bool_literal V = Some b \<longrightarrow>
            parse_loop h ((''--'' @ long @ ''='' @ V) # rest) g l =
              parse_loop h rest (set_Passed p b g) l) \<and>
         (CHR ''='' \<notin> set long \<and> bool_literal V = None \<and> (\<forall>c\<in>set V. byte c < 128) \<longrightarrow>
            parse_loop h ((''--'' @ long @ ''='' @ V) # rest) g l =
              (Returned_err BooleanParseError, g)) \<and>
         Passed (heapFlag (set_Passed p b g) p) = b"
proof -
  have lit: "parse_loop h ((''--'' @ long @ ''='' @ W) # rest) g l =
      parse_loop h rest (set_Passed p c g) l"
    if "CHR ''='' \<notin> set long" and "bool_literal W = Some c" for W c
    using step_long_assign [OF assms(3) that(1), of h W rest g] assms(2)
      optargToBool_literal [OF that(2)]
    by simp
  have nolit: "parse_loop h ((''--'' @ long @ ''='' @ W) # rest) g l =
      (Returned_err BooleanParseError, g)"
    if "CHR ''='' \<notin> set long" and "bool_literal W = None" and "\<forall>c\<in>set W. byte c < 128" for W
    using step_long_assign [OF assms(3) that(1), of h W rest g] assms(2)
      optargToBool_ascii [OF that(3)] that(2)
    by simp
  have flit: "parse_loop h ((''--'' @ long @ ''='' @ W) # rest) g l =
      parse_loop h rest (set_Passed p c g) l"
    if "CHR ''='' \<notin> set long" and "folded_bool_literal W = Some c" for W c
    using step_long_assign [OF assms(3) that(1), of h W rest g] assms(2)
      optargToBool_folded [of W] that(2)
    by simp
  have fnolit: "parse_loop h ((''--'' @ long @ ''='' @ W) # rest) g l =
      (Returned_err BooleanParseError, g)"
    if "CHR ''='' \<notin> set long" and "folded_bool_literal W = None" for W
    using step_long_assign [OF assms(3) that(1), of h W rest g] assms(2)
      optargToBool_folded [of W] that(2)
    by simp
  have ascii: "\<forall>c\<in>set ''Fase''. byte c < 128"
    by (simp add: byte_def)
  have short: "parse_loop h ([CHR ''-'', x] # rest) g l = parse_loop h rest (set_Passed p True g) l"
    if "x \<noteq> CHR ''-''"
    using step_short [OF assms(3) that, of h rest g] assms(1) by simp
  have long: "parse_loop h ((''--'' @ long) # rest) g l = parse_loop h rest (set_Passed p True g) l"
    if "long \<noteq> []" "CHR ''='' \<notin> set long"
    using step_long_bare [OF assms(3) that, of h rest g] assms(2) by simp
  have plus: "parse_loop h ([CHR ''+'', x] # rest) g l = parse_loop h rest (set_Passed p False g) l"
    using step_plus [OF assms(3), of h x rest g] assms(1) by simp
  from lit [of "''false''" False] lit [of "''F''" False] nolit [of "''Fase''"]
    lit [of V b] nolit [of V] flit [of V b] fnolit [of V] short long plus ascii
  show ?thesis
    by (simp add: bool_literal_examples)
qed

text \<open>
  The claim as stated refuses every value that is not one of the four literals up to
  the case of its letters. \<^verbatim>\<open>strings.EqualFold\<close> folds the long s (U+017F) to \<^verbatim>\<open>s\<close>, so
  the value \<^verbatim>\<open>fal\<close>, long s, \<^verbatim>\<open>e\<close>, which no change of case of ASCII letters turns into a
  literal, is accepted as false: after \<^verbatim>\<open>--force\<close> it clears the flag, and the call returns
  nil.
\<close>

theorem C5_counterexample:
  "bool_literal (''fal'' @ [CHR 0xC5, CHR 0xBF] @ ''e'') = None \<and>
   ParseArgv default_StdinHandler
       [''--force'', ''--force=fal'' @ [CHR 0xC5, CHR 0xBF] @ ''e''] registry_force =
     (Returned_nil, set_Passed 0 False registry_force) \<and>
   ParseArgv default_StdinHandler [''--force''] registry_force =
     (Returned_nil, set_Passed 0 True registry_force)"
  by (simp add: ParseArgv_def initial_locals_def step_def finish_def registry_force_facts
        optargToBool_def byte_def ascii_fold_eq_def bool_literal_def ascii_lower_def Let_def
        char_of_eq_iff)

theorem C5_witness:
  "optByShort registry_force (CHR ''f'') = Some (PFlag 0) \<and>
   optByLong registry_force ''force'' = Some (PFlag 0) \<and>
   ParseArgv default_StdinHandler [''-f''] registry_force =
     (Returned_nil, set_Passed 0 True registry_force) \<and>
   ParseArgv default_StdinHandler [''--force''] registry_force =
     (Returned_nil, set_Passed 0 True registry_force) \<and>
   ParseArgv default_StdinHandler [''+f''] registry_force =
     (Returned_nil, set_Passed 0 False registry_force) \<and>
   ParseArgv default_StdinHandler [''--force=false''] registry_force =
     (Returned_nil, set_Passed 0 False registry_force) \<and>
   ParseArgv default_StdinHandler [''--force=TRUE''] registry_force =
     (Returned_nil, set_Passed 0 True registry_force) \<and>
   ParseArgv default_StdinHandler [''--force=Fase''] registry_force =
     (Returned_err BooleanParseError, registry_force) \<and>
   folded_bool_literal (''tru'' @ [CHR 0xC3, CHR 0xA9]) = None \<and>
   ParseArgv default_StdinHandler [''--force=tru'' @ [CHR 0xC3, CHR 0xA9]] registry_force =
     (Returned_err BooleanParseError, registry_force) \<and>
   folded_bool_literal (''fal'' @ [CHR 0xC5, CHR 0xBF] @ ''e'') = Some False \<and>
   ParseArgv default_StdinHandler [''--force=fal'' @ [CHR 0xC5, CHR 0xBF] @ ''e'']
       registry_force =
     (Returned_nil, set_Passed 0 False registry_force)"
proof -
  have reg: "optByShort registry_force (CHR ''f'') = Some (PFlag 0)"
    "optByLong registry_force ''force'' = Some (PFlag 0)"
    by (simp_all add: registry_force_facts)
  have l: "\<not> expecting_opt initial_locals"
    by (simp add: initial_locals_def)
  have lit: "folded_bool_literal ''TRUE'' = Some True"
    "folded_bool_literal (''tru'' @ [CHR 0xC3, CHR 0xA9]) = None"
    "folded_bool_literal (''fal'' @ [CHR 0xC5, CHR 0xBF] @ ''e'') = Some False"
    by (simp_all add: folded_bool_literal_def ascii_lower_def byte_def Let_def char_of_eq_iff)
  from C5_flag_forms [OF reg l, of default_StdinHandler "[]" "''TRUE''" True]
    C5_flag_forms [OF reg l, of default_StdinHandler "[]" "''tru'' @ [CHR 0xC3, CHR 0xA9]"]
    C5_flag_forms [OF reg l, of default_StdinHandler "[]"
      "''fal'' @ [CHR 0xC5, CHR 0xBF] @ ''e''" False]
    reg lit
  show ?thesis
    by (simp add: ParseArgv_def finish_def initial_locals_def)
qed

subsection \<open>Counters\<close>

text \<open>
  Claim C4. Let an \<^verbatim>\<open>OptCount\<close> be registered under the short character \<open>x\<close> and the long
  name \<open>long\<close>, and let no value be awaited. Starting from \<^verbatim>\<open>Count\<close> zero, the group
  \<^verbatim>\<open>-xxx\<close> (for \<open>x\<close> other than \<^verbatim>\<open>-\<close>) and three tokens \<^verbatim>\<open>--long\<close> (for a name that is not
  empty and has no \<^verbatim>\<open>=\<close>) leave \<^verbatim>\<open>Count\<close> equal to 3; the token \<^verbatim>\<open>--long=3\<close> sets it to 3
  from any value; and each token \<^verbatim>\<open>+x\<close> subtracts one from it (in 64-bit arithmetic).
  Nothing else of the state changes.
\<close>

theorem C4_counter_forms:
  assumes "optByShort g x = Some (POptCount p)" and "optByLong g long = Some (POptCount p)"
    and "\<not> expecting_opt l"
  shows "(x \<noteq> CHR ''-'' \<and> Count (heapOptCount g p) = 0 \<longrightarrow>
            parse_loop h ([CHR ''-'', x, x, x] # rest) g l = parse_loop h rest (set_Count p 3 g) l) \<and>
         (long \<noteq> [] \<and> CHR ''='' \<notin> set long \<and> Count (heapOptCount g p) = 0 \<longrightarrow>
            parse_loop h ((''--'' @ long) # (''--'' @ long) # (''--'' @ long) # rest) g l =
              parse_loop h rest (set_Count p 3 g) l) \<and>
         (CHR ''='' \<notin> set long \<longrightarrow>
            parse_loop h ((''--'' @ long @ ''=3'') # rest) g l =
              parse_loop h rest (set_Count p 3 g) l) \<and>
         parse_loop h ([CHR ''+'', x] # rest) g l =
           parse_loop h rest (set_Count p (Count (heapOptCount g p) - 1) g) l \<and>
         Count (heapOptCount (set_Count p n g) p) = n"
proof -
  have group: "parse_loop h ([CHR ''-'', x, x, x] # rest) g l = parse_loop h rest (set_Count p 3 g) l"
    if "x \<noteq> CHR ''-''" "Count (heapOptCount g p) = 0"
    using step_short_group [OF assms(3) that(1), of "[x, x]" h rest g] assms(1) that(2)
    by simp
  have one: "parse_loop h ((''--'' @ long) # rest') g' l =
      parse_loop h rest' (set_Count p (Count (heapOptCount g' p) + 1) g') l"
    if "long \<noteq> []" "CHR ''='' \<notin> set long" "optByLong g' = optByLong g" for g' rest'
    using step_long_bare [OF assms(3) that(1,2), of h rest' g'] assms(2) that(3) by simp
  have three: "parse_loop h ((''--'' @ long) # (''--'' @ long) # (''--'' @ long) # rest) g l =
      parse_loop h rest (set_Count p 3 g) l"
    if "long \<noteq> []" "CHR ''='' \<notin> set long" "Count (heapOptCount g p) = 0"
    using that by (simp add: one del: append.simps parse_loop.simps)
  have assign: "parse_loop h ((''--'' @ long @ ''=3'') # rest) g l =
      parse_loop h rest (set_Count p 3 g) l"
    if "CHR ''='' \<notin> set long"
    using step_long_assign [OF assms(3) that, of h "''3''" rest g] assms(2)
    by (simp add: ParseInt_3)
  have plus: "parse_loop h ([CHR ''+'', x] # rest) g l =
      parse_loop h rest (set_Count p (Count (heapOptCount g p) - 1) g) l"
    using step_plus [OF assms(3), of h x rest g] assms(1) by simp
  from group three assign plus show ?thesis by simp
qed

theorem C4_witness:
  "optByShort registry_verbose (CHR ''v'') = Some (POptCount 0) \<and>
   optByLong registry_verbose ''verbose'' = Some (POptCount 0) \<and>
   Count (heapOptCount registry_verbose 0) = 0 \<and>
   ParseArgv default_StdinHandler [''-vvv''] registry_verbose =
     (Returned_nil, set_Count 0 3 registry_verbose) \<and>
   ParseArgv default_StdinHandler [''--verbose'', ''--verbose'', ''--verbose''] registry_verbose =
     (Returned_nil, set_Count 0 3 registry_verbose) \<and>
   ParseArgv default_StdinHandler [''--verbose=3''] registry_verbose =
     (Returned_nil, set_Count 0 3 registry_verbose) \<and>
   ParseArgv default_StdinHandler [''+v''] registry_verbose =
     (Returned_nil, set_Count 0 (- 1) registry_verbose)"
proof -
  have reg: "optByShort registry_verbose (CHR ''v'') = Some (POptCount 0)"
    "optByLong registry_verbose ''verbose'' = Some (POptCount 0)"
    and zero: "Count (heapOptCount registry_verbose 0) = 0"
    by (simp_all add: registry_verbose_facts)
  have l: "\<not> expecting_opt initial_locals"
    by (simp add: initial_locals_def)
  from C4_counter_forms [OF reg l, of default_StdinHandler "[]"] reg zero
  show ?thesis
    by (simp add: ParseArgv_def finish_def initial_locals_def)
qed

section \<open>Assignment to a counter\<close>

subsection \<open>Digits\<close>





subsection \<open>The digit loop on a string of digits\<close>



subsection \<open>Base prefixes and signs\<close>











subsection \<open>The 32-bit limit\<close>



end
